theory Spec2Isabelle
  imports Complex_Main
begin

section \<open>JavaScript primitives used by the server\<close>

text \<open>
  The server is \<^verbatim>\<open>packages/server/src/index.ts\<close>. Strings are modelled as
  \<^typ>\<open>string\<close>: one \<^typ>\<open>char\<close> per UTF-16 code unit, restricted to the code units
  0..255 (Latin-1), on which \<^verbatim>\<open>trim\<close>, \<^verbatim>\<open>toLowerCase\<close>, \<^verbatim>\<open>includes\<close>
  and \<^verbatim>\<open>length\<close> are modelled completely. Integers that JavaScript holds in a double
  (\<^verbatim>\<open>Date.now()\<close>, \<^verbatim>\<open>parseInt\<close> results, array indices) are \<^typ>\<open>int\<close>; this is exact below
  \<open>2 ^ 53\<close>.
\<close>

definition is_js_whitespace :: "char \<Rightarrow> bool" where
  \<comment> \<open>WhiteSpace and LineTerminator of ECMAScript among the code units 0..255:
      TAB, LF, VT, FF, CR, SP and NBSP.\<close>
  "is_js_whitespace c =
     (of_char c \<in> {9::nat, 10, 11, 12, 13, 32, 160})"

definition js_trim :: "string \<Rightarrow> string" where
  \<comment> \<open>\<^verbatim>\<open>String.prototype.trim\<close>\<close>
  "js_trim s = rev (dropWhile is_js_whitespace (rev (dropWhile is_js_whitespace s)))"

definition js_lower_char :: "char \<Rightarrow> char" where
  \<comment> \<open>\<^verbatim>\<open>toLowerCase\<close> on one Latin-1 code unit: A-Z, and 0xC0-0xDE apart from 0xD7.\<close>
  "js_lower_char c =
     (let n = (of_char c :: nat)
      in if (65 \<le> n \<and> n \<le> 90) \<or> (192 \<le> n \<and> n \<le> 222 \<and> n \<noteq> 215)
         then char_of (n + 32) else c)"

definition js_toLowerCase :: "string \<Rightarrow> string" where
  "js_toLowerCase s = map js_lower_char s"

fun starts_with :: "string \<Rightarrow> string \<Rightarrow> bool" where
  "starts_with s [] = True"
| "starts_with [] (n # ns) = False"
| "starts_with (c # cs) (n # ns) = (c = n \<and> starts_with cs ns)"

fun js_includes :: "string \<Rightarrow> string \<Rightarrow> bool" where
  \<comment> \<open>\<^verbatim>\<open>String.prototype.includes\<close>: the needle occurs at some position\<close>
  "js_includes [] needle = (needle = [])"
| "js_includes (c # cs) needle = (starts_with (c # cs) needle \<or> js_includes cs needle)"

definition js_slice :: "'a list \<Rightarrow> int \<Rightarrow> int \<Rightarrow> 'a list" where
  \<comment> \<open>\<^verbatim>\<open>Array.prototype.slice(start, end)\<close>: a negative index counts from the end,
      both are clamped to the array, and an empty range gives the empty array.\<close>
  "js_slice xs start fin =
     (let len = int (length xs);
          k = (if start < 0 then max (len + start) 0 else min start len);
          final = (if fin < 0 then max (len + fin) 0 else min fin len)
      in take (nat (final - k)) (drop (nat k) xs))"

definition digit_value :: "char \<Rightarrow> nat option" where
  \<comment> \<open>the value of a digit character, up to radix 16\<close>
  "digit_value c =
     (let n = (of_char c :: nat)
      in if 48 \<le> n \<and> n \<le> 57 then Some (n - 48)
         else if 97 \<le> n \<and> n \<le> 102 then Some (n - 87)
         else if 65 \<le> n \<and> n \<le> 70 then Some (n - 55)
         else None)"

definition is_digit :: "nat \<Rightarrow> char \<Rightarrow> bool" where
  "is_digit radix c = (case digit_value c of None \<Rightarrow> False | Some d \<Rightarrow> d < radix)"

definition digits_value :: "nat \<Rightarrow> string \<Rightarrow> int" where
  \<comment> \<open>the number that a run of digits writes; it is only called on digits\<close>
  "digits_value radix ds =
     foldl (\<lambda>acc c. acc * int radix
              + int (case digit_value c of None \<Rightarrow> 0 | Some d \<Rightarrow> d)) 0 ds"

definition parseInt :: "string \<Rightarrow> int option" where
  \<comment> \<open>\<^verbatim>\<open>parseInt(s)\<close> with no radix: leading white space is skipped, then an optional
      sign, an optional \<^verbatim>\<open>0x\<close>/\<^verbatim>\<open>0X\<close> prefix, and the longest run of digits;
      what follows is ignored. \<open>None\<close> is \<^verbatim>\<open>NaN\<close> (no digit was read). The result is
      the integer that the digits write; the code holds the double nearest to it, which is
      that integer when its magnitude is at most \<open>2 ^ 53\<close>.\<close>
  "parseInt s =
     (let s1 = dropWhile is_js_whitespace s;
          sign = (case s1 of c # _ \<Rightarrow> if c = CHR ''-'' then - 1 else (1::int) | [] \<Rightarrow> 1);
          s2 = (case s1 of c # r \<Rightarrow> if c = CHR ''-'' \<or> c = CHR ''+'' then r else s1 | [] \<Rightarrow> s1);
          hex = (starts_with s2 ''0x'' \<or> starts_with s2 ''0X'');
          radix = (if hex then 16 else 10);
          s3 = (if hex then drop 2 s2 else s2);
          ds = takeWhile (is_digit radix) s3
      in if ds = [] then None else Some (sign * digits_value radix ds))"

definition parseInt_query :: "string option \<Rightarrow> int option" where
  \<comment> \<open>\<^verbatim>\<open>parseInt(req.query.x as string)\<close>: an absent parameter is \<^verbatim>\<open>undefined\<close>,
      which \<^verbatim>\<open>parseInt\<close> reads as the string "undefined"; a parameter that is present
      is the string that \<^verbatim>\<open>parseInt\<close> converts it to.\<close>
  "parseInt_query q = (case q of None \<Rightarrow> parseInt ''undefined'' | Some s \<Rightarrow> parseInt s)"

definition or_default :: "int option \<Rightarrow> int \<Rightarrow> int" where
  \<comment> \<open>\<^verbatim>\<open>n || d\<close> on a number: \<^verbatim>\<open>NaN\<close> and \<^verbatim>\<open>0\<close> are falsy\<close>
  "or_default n d = (case n of None \<Rightarrow> d | Some v \<Rightarrow> if v = 0 then d else v)"

section \<open>Data model\<close>

datatype sentiment = Positive | Negative

record SentimentResponse =
  sr_sentiment :: sentiment
  sr_confidence :: rat
  sr_text :: string

record MoodEntry =
  me_id :: "int \<times> string"  \<comment> \<open>\<^verbatim>\<open>mood_${Date.now()}_${random suffix}\<close>\<close>
  me_text :: string
  me_sentiment :: sentiment
  me_confidence :: rat
  me_timestamp :: int  \<comment> \<open>the instant that \<^verbatim>\<open>toISOString\<close> prints\<close>

datatype message =
    Text string
  | RateLimitText int int
    \<comment> \<open>\<^verbatim>\<open>Too many requests. Limit: ${rateLimitMax} requests per ${rateLimitWindow / 1000} seconds\<close>,
        holding \<^verbatim>\<open>rateLimitMax\<close> and \<^verbatim>\<open>rateLimitWindow\<close>\<close>
  | NotFoundText string string
    \<comment> \<open>\<^verbatim>\<open>Route ${req.method} ${req.originalUrl} not found\<close>\<close>

record ErrorResponse =
  er_error :: string
  er_message :: message
  er_timestamp :: int

record HealthResponse =
  hr_status :: string
  hr_timestamp :: int
  hr_version :: string
  hr_environment :: string
  hr_sentimentAnalysis :: string

datatype body =
    ErrorBody ErrorResponse
  | HealthBody HealthResponse
  | SentimentBody SentimentResponse
  | MoodBody MoodEntry
  | MoodsBody "MoodEntry list" nat int int  \<comment> \<open>\<^verbatim>\<open>{moods, total, limit, offset}\<close>\<close>
  | PlainBody string

record response =
  status :: nat
  body :: body

datatype jsvalue =
    JUndefined | JNull | JBool bool | JNumber rat | JString string
  | JObject  \<comment> \<open>any array or object\<close>

definition js_falsy :: "jsvalue \<Rightarrow> bool" where
  \<comment> \<open>\<^verbatim>\<open>!v\<close>\<close>
  "js_falsy v =
     (case v of JUndefined \<Rightarrow> True | JNull \<Rightarrow> True | JBool b \<Rightarrow> \<not> b
      | JNumber n \<Rightarrow> n = 0 | JString s \<Rightarrow> s = [] | JObject \<Rightarrow> False)"

definition js_typeof :: "jsvalue \<Rightarrow> string" where
  "js_typeof v =
     (case v of JUndefined \<Rightarrow> ''undefined'' | JNull \<Rightarrow> ''object'' | JBool b \<Rightarrow> ''boolean''
      | JNumber n \<Rightarrow> ''number'' | JString s \<Rightarrow> ''string'' | JObject \<Rightarrow> ''object'')"

fun string_of :: "jsvalue \<Rightarrow> string" where
  \<comment> \<open>the characters of a value already known to be a string\<close>
  "string_of (JString s) = s"
| "string_of _ = []"

datatype js_error = Error (message_of: string)

record config =
  nodeEnv :: string
  rateLimitWindow :: int  \<comment> \<open>\<^verbatim>\<open>parseInt(RATE_LIMIT_WINDOW || '900000')\<close>\<close>
  rateLimitMax :: int  \<comment> \<open>\<^verbatim>\<open>parseInt(RATE_LIMIT_MAX || '100')\<close>\<close>

text \<open>
  A request as the handlers read it: \<open>body_text\<close> is the \<^verbatim>\<open>text\<close> property of the
  parsed body (\<open>JUndefined\<close> when the body has none), \<open>query_limit\<close> and
  \<open>query_offset\<close> are \<^verbatim>\<open>req.query.limit\<close> and \<^verbatim>\<open>req.query.offset\<close>. What the
  world gives one request is its \<open>env\<close>: the clock, the random suffix of a new id, and
  what \<^verbatim>\<open>pipeline(...)\<close> of the inference library settles to if this request loads
  the model (a classifier, or a rejection with its reason).
\<close>

record request =
  http_method :: string  \<comment> \<open>\<^verbatim>\<open>req.method\<close>\<close>
  path :: string
  ip :: "string option"
  body_text :: jsvalue
  query_limit :: "string option"
  query_offset :: "string option"

record classification =
  label :: string
  score :: rat

type_synonym classifier = "string \<Rightarrow> string + classification list"
  \<comment> \<open>the loaded pipeline: \<open>Inl\<close> when the call rejects, else the array it resolves to\<close>

record env =
  now :: int
  random_suffix :: string
  pipeline_load :: "string + classifier"

section \<open>Rate limiting\<close>

record RateRecord =
  count :: int
  resetTime :: int

type_synonym rate_store = "string \<rightharpoonup> RateRecord"

datatype admission = Allowed | Denied

definition sweep_expired :: "int \<Rightarrow> rate_store \<Rightarrow> rate_store" where
  \<comment> \<open>the loop that deletes every record with \<^verbatim>\<open>resetTime < now\<close>\<close>
  "sweep_expired t store =
     (\<lambda>key. case store key of None \<Rightarrow> None
            | Some v \<Rightarrow> if resetTime v < t then None else Some v)"

definition client_id :: "string option \<Rightarrow> string" where
  \<comment> \<open>\<^verbatim>\<open>req.ip || 'unknown'\<close>\<close>
  "client_id a = (case a of None \<Rightarrow> ''unknown'' | Some s \<Rightarrow> if s = [] then ''unknown'' else s)"

definition rateLimitMiddleware ::
  "config \<Rightarrow> int \<Rightarrow> string option \<Rightarrow> rate_store \<Rightarrow> admission \<times> rate_store" where
  \<comment> \<open>\<open>Allowed\<close> is the call of \<^verbatim>\<open>next()\<close>, \<open>Denied\<close> the 429 response\<close>
  "rateLimitMiddleware cfg t a store =
     (let clientId = client_id a;
          swept = sweep_expired t store;
          fresh = \<lparr>count = 1, resetTime = t + rateLimitWindow cfg\<rparr>
      in case swept clientId of
           None \<Rightarrow> (Allowed, swept(clientId \<mapsto> fresh))
         | Some clientData \<Rightarrow>
             if resetTime clientData < t then (Allowed, swept(clientId \<mapsto> fresh))
             else if count clientData \<ge> rateLimitMax cfg then (Denied, swept)
             else (Allowed, swept(clientId \<mapsto> clientData\<lparr>count := count clientData + 1\<rparr>)))"

definition rate_limit_response :: "config \<Rightarrow> int \<Rightarrow> response" where
  "rate_limit_response cfg t =
     \<lparr>status = 429,
      body = ErrorBody \<lparr>er_error = ''Rate Limit Exceeded'',
                       er_message = RateLimitText (rateLimitMax cfg) (rateLimitWindow cfg),
                       er_timestamp = t\<rparr>\<rparr>"

fun admit_all :: "config \<Rightarrow> string option \<Rightarrow> rate_store \<Rightarrow> int list \<Rightarrow> admission list \<times> rate_store" where
  \<comment> \<open>one client calling at each of the given times, in turn\<close>
  "admit_all cfg a store [] = ([], store)"
| "admit_all cfg a store (t # ts) =
     (let (d, store1) = rateLimitMiddleware cfg t a store;
          (ds, store2) = admit_all cfg a store1 ts
      in (d # ds, store2))"

section \<open>Input validation\<close>

definition validation_error :: "int \<Rightarrow> string \<Rightarrow> response" where
  "validation_error t msg =
     \<lparr>status = 400,
      body = ErrorBody \<lparr>er_error = ''Validation Error'', er_message = Text msg,
                       er_timestamp = t\<rparr>\<rparr>"

definition validateSentimentInput :: "int \<Rightarrow> jsvalue \<Rightarrow> response option" where
  \<comment> \<open>\<open>None\<close> is the call of \<^verbatim>\<open>next()\<close>\<close>
  "validateSentimentInput t text =
     (if js_falsy text \<or> js_typeof text \<noteq> ''string''
      then Some (validation_error t ''Text field is required and must be a string'')
      else if length (js_trim (string_of text)) = 0
      then Some (validation_error t ''Text cannot be empty'')
      else if length (string_of text) > 1000
      then Some (validation_error t ''Text must be less than 1000 characters'')
      else None)"

section \<open>Sentiment analysis\<close>

text \<open>
  A score is a double. A finite double is modelled by the rational it stands for, and an
  operation on doubles by the exact operation followed by rounding to the nearest double,
  ties to the even significand: the significand has 53 bits, the exponent of a normal
  double lies between -1022 and 1023, and below \<open>2 powi - 1022\<close> the spacing stays that
  of the lowest normal doubles. Overflow to infinity is not modelled: \<open>round64\<close> is the
  rounding of the machine for magnitudes below \<open>2 powi 1024\<close>.
\<close>

fun expo_search :: "rat \<Rightarrow> nat \<Rightarrow> int" where
  \<comment> \<open>the largest \<open>e\<close> among \<open>n - 1022\<close>, ..., \<open>- 1021\<close> with \<open>2 powi e \<le> x\<close>, or
      \<open>- 1022\<close> when there is none\<close>
  "expo_search x 0 = - 1022"
| "expo_search x (Suc n) =
     (if power_int 2 (int (Suc n) - 1022) \<le> x then int (Suc n) - 1022 else expo_search x n)"

definition exponent64 :: "rat \<Rightarrow> int" where
  \<comment> \<open>the exponent of the doubles around \<open>x \<ge> 0\<close>\<close>
  "exponent64 x = expo_search x 2045"

definition round_half_even :: "rat \<Rightarrow> int" where
  "round_half_even q =
     (let f = \<lfloor>q\<rfloor>; r = q - of_int f
      in if r < 1 / 2 then f else if 1 / 2 < r then f + 1 else if even f then f else f + 1)"

definition round64 :: "rat \<Rightarrow> rat" where
  \<comment> \<open>the double nearest to \<open>x\<close>: a multiple of the spacing \<open>2 powi (e - 52)\<close>\<close>
  "round64 x =
     (let a = \<bar>x\<bar>;
          ulp = power_int 2 (exponent64 a - 52);
          m = of_int (round_half_even (a / ulp)) * ulp
      in if x < 0 then - m else m)"

definition double_mul :: "rat \<Rightarrow> rat \<Rightarrow> rat" where
  "double_mul a b = round64 (a * b)"

definition double_div :: "rat \<Rightarrow> rat \<Rightarrow> rat" where
  "double_div a b = round64 (a / b)"

definition math_round :: "rat \<Rightarrow> int" where
  \<comment> \<open>\<^verbatim>\<open>Math.round\<close> of a double: the nearest integer, a half rounding up\<close>
  "math_round x = \<lfloor>x + 1 / 2\<rfloor>"

definition initializeSentimentPipeline ::
  "(string + classifier) \<Rightarrow> classifier option \<Rightarrow> (js_error + unit) \<times> classifier option" where
  "initializeSentimentPipeline loaded pipe =
     (case loaded of
        Inr p \<Rightarrow> (Inr (), Some p)
      | Inl reason \<Rightarrow> (Inl (Error ''Sentiment analysis service unavailable''), pipe))"

definition normalize_result :: "string \<Rightarrow> classification \<Rightarrow> SentimentResponse" where
  "normalize_result text s =
     \<lparr>sr_sentiment = (if js_toLowerCase (label s) = ''positive'' then Positive else Negative),
      sr_confidence = double_div (of_int (math_round (double_mul (score s) 100))) 100,
      sr_text = js_trim text\<rparr>"

definition run_pipeline :: "classifier option \<Rightarrow> string \<Rightarrow> js_error + SentimentResponse" where
  \<comment> \<open>the \<^verbatim>\<open>try\<close> block of \<^verbatim>\<open>analyzeSentiment\<close>: a rejected call, a call of
      \<^verbatim>\<open>null\<close> and a read of \<^verbatim>\<open>label\<close> on a missing \<^verbatim>\<open>result[0]\<close> all throw inside
      it, and the \<^verbatim>\<open>catch\<close> replaces the error\<close>
  "run_pipeline pipe text =
     (case pipe of
        None \<Rightarrow> Inl (Error ''Failed to analyze sentiment'')
      | Some p \<Rightarrow>
          (case p text of
             Inl reason \<Rightarrow> Inl (Error ''Failed to analyze sentiment'')
           | Inr [] \<Rightarrow> Inl (Error ''Failed to analyze sentiment'')
           | Inr (s # rest) \<Rightarrow> Inr (normalize_result text s)))"

definition analyzeSentiment ::
  "(string + classifier) \<Rightarrow> classifier option \<Rightarrow> string
     \<Rightarrow> (js_error + SentimentResponse) \<times> classifier option" where
  \<comment> \<open>one call run to its end; the second component is \<^verbatim>\<open>sentimentPipeline\<close> afterwards\<close>
  "analyzeSentiment loaded pipe text =
     (let (init, pipe1) =
            (case pipe of None \<Rightarrow> initializeSentimentPipeline loaded pipe
             | Some p \<Rightarrow> (Inr (), pipe))
      in case init of
           Inl e \<Rightarrow> (Inl e, pipe1)
         | Inr u \<Rightarrow> (run_pipeline pipe1 text, pipe1))"

section \<open>Comparing labels without regard to case\<close>




section \<open>Error handling\<close>

definition error_status :: "js_error \<Rightarrow> nat" where
  "error_status err =
     (if js_includes (message_of err) ''Validation'' then 400
      else if js_includes (message_of err) ''unavailable'' then 503 else 500)"

definition errorHandler :: "int \<Rightarrow> js_error \<Rightarrow> response" where
  \<comment> \<open>the handlers call \<^verbatim>\<open>next(error)\<close> before they send anything, so
      \<^verbatim>\<open>res.headersSent\<close> is false here\<close>
  "errorHandler t err =
     (let statusCode = error_status err
      in \<lparr>status = statusCode,
          body = ErrorBody
            \<lparr>er_error = (if statusCode = 500 then ''Internal Server Error'' else message_of err),
             er_message = Text (if statusCode = 500 then ''An unexpected error occurred''
                                else message_of err),
             er_timestamp = t\<rparr>\<rparr>)"

section \<open>The mood ledger\<close>

definition ledger_cap :: nat where
  "ledger_cap = 1000"

definition js_splice_front :: "'a list \<Rightarrow> nat \<Rightarrow> 'a list" where
  \<comment> \<open>\<^verbatim>\<open>xs.splice(0, n)\<close>: what is left in the array\<close>
  "js_splice_front xs n = drop n xs"

definition ledger_append :: "MoodEntry list \<Rightarrow> MoodEntry \<Rightarrow> MoodEntry list" where
  \<comment> \<open>\<^verbatim>\<open>moodEntries.push(moodEntry)\<close>, then the trim to the last 1000 entries\<close>
  "ledger_append entries e =
     (let pushed = entries @ [e]
      in if length pushed > ledger_cap
         then js_splice_front pushed (length pushed - ledger_cap)
         else pushed)"

text \<open>
  \<^verbatim>\<open>slice\<close> returns a new array and \<^verbatim>\<open>reverse\<close> works in place, so the handler that
  lists the moods is run on a store of arrays: an array reference is an index into the
  store, and the ledger is one of the arrays in it.
\<close>

type_synonym 'a heap = "'a list list"

definition heap_read :: "'a heap \<Rightarrow> nat \<Rightarrow> 'a list" where
  "heap_read h r = (if r < length h then h ! r else [])"

definition heap_alloc :: "'a heap \<Rightarrow> 'a list \<Rightarrow> 'a heap \<times> nat" where
  "heap_alloc h xs = (h @ [xs], length h)"

definition arr_slice_all :: "'a heap \<Rightarrow> nat \<Rightarrow> 'a heap \<times> nat" where
  \<comment> \<open>\<^verbatim>\<open>a.slice()\<close>: a new array holding the elements from 0 to the length\<close>
  "arr_slice_all h r =
     heap_alloc h (js_slice (heap_read h r) 0 (int (length (heap_read h r))))"

definition arr_slice :: "'a heap \<Rightarrow> nat \<Rightarrow> int \<Rightarrow> int \<Rightarrow> 'a heap \<times> nat" where
  \<comment> \<open>\<^verbatim>\<open>a.slice(start, end)\<close>: a new array\<close>
  "arr_slice h r start fin = heap_alloc h (js_slice (heap_read h r) start fin)"

definition arr_reverse :: "'a heap \<Rightarrow> nat \<Rightarrow> 'a heap \<times> nat" where
  \<comment> \<open>\<^verbatim>\<open>a.reverse()\<close>: the array itself is reversed, and its own reference returned\<close>
  "arr_reverse h r = (h[r := rev (heap_read h r)], r)"

section \<open>Routes\<close>

record app_state =
  moodEntries :: "MoodEntry list"
  sentimentPipeline :: "classifier option"
  rateLimitStore :: rate_store

definition health_handler :: "config \<Rightarrow> env \<Rightarrow> app_state \<Rightarrow> response \<times> app_state" where
  "health_handler cfg e st =
     (\<lparr>status = 200,
       body = HealthBody
         \<lparr>hr_status = ''healthy'', hr_timestamp = now e, hr_version = ''1.0.0'',
          hr_environment = nodeEnv cfg,
          hr_sentimentAnalysis =
            (case sentimentPipeline st of None \<Rightarrow> ''initializing'' | Some p \<Rightarrow> ''ready'')\<rparr>\<rparr>,
      st)"

definition post_sentiment :: "env \<Rightarrow> request \<Rightarrow> app_state \<Rightarrow> response \<times> app_state" where
  \<comment> \<open>\<^verbatim>\<open>app.post('/api/sentiment', validateSentimentInput, handler)\<close>\<close>
  "post_sentiment e req st =
     (case validateSentimentInput (now e) (body_text req) of
        Some rejected \<Rightarrow> (rejected, st)
      | None \<Rightarrow>
          (let (result, pipe) =
                 analyzeSentiment (pipeline_load e) (sentimentPipeline st)
                   (string_of (body_text req));
               st1 = st\<lparr>sentimentPipeline := pipe\<rparr>
           in case result of
                Inl err \<Rightarrow> (errorHandler (now e) err, st1)
              | Inr r \<Rightarrow> (\<lparr>status = 200, body = SentimentBody r\<rparr>, st1)))"

definition post_moods :: "env \<Rightarrow> request \<Rightarrow> app_state \<Rightarrow> response \<times> app_state" where
  \<comment> \<open>\<^verbatim>\<open>app.post('/api/moods', validateSentimentInput, handler)\<close>\<close>
  "post_moods e req st =
     (case validateSentimentInput (now e) (body_text req) of
        Some rejected \<Rightarrow> (rejected, st)
      | None \<Rightarrow>
          (let (result, pipe) =
                 analyzeSentiment (pipeline_load e) (sentimentPipeline st)
                   (string_of (body_text req));
               st1 = st\<lparr>sentimentPipeline := pipe\<rparr>
           in case result of
                Inl err \<Rightarrow> (errorHandler (now e) err, st1)
              | Inr sentimentResult \<Rightarrow>
                  (let moodEntry =
                         \<lparr>me_id = (now e, random_suffix e),
                          me_text = sr_text sentimentResult,
                          me_sentiment = sr_sentiment sentimentResult,
                          me_confidence = sr_confidence sentimentResult,
                          me_timestamp = now e\<rparr>
                   in (\<lparr>status = 201, body = MoodBody moodEntry\<rparr>,
                       st1\<lparr>moodEntries := ledger_append (moodEntries st1) moodEntry\<rparr>))))"

definition get_moods :: "request \<Rightarrow> app_state \<Rightarrow> response \<times> app_state" where
  \<comment> \<open>\<^verbatim>\<open>app.get('/api/moods', handler)\<close>; the ledger is the array at reference 0\<close>
  "get_moods req st =
     (let limit = or_default (parseInt_query (query_limit req)) 50;
          offset = or_default (parseInt_query (query_offset req)) 0;
          h0 = [moodEntries st];
          (h1, copied) = arr_slice_all h0 0;
          (h2, reversed) = arr_reverse h1 copied;
          (h3, paginatedEntries) = arr_slice h2 reversed offset (offset + limit)
      in (\<lparr>status = 200,
           body = MoodsBody (heap_read h3 paginatedEntries) (length (heap_read h3 0))
                    limit offset\<rparr>,
          st\<lparr>moodEntries := heap_read h3 0\<rparr>))"

definition not_found :: "env \<Rightarrow> request \<Rightarrow> response" where
  "not_found e req =
     \<lparr>status = 404,
      body = ErrorBody \<lparr>er_error = ''Not Found'',
                       er_message = NotFoundText (http_method req) (path req),
                       er_timestamp = now e\<rparr>\<rparr>"

definition ascii_lower_char :: "char \<Rightarrow> char" where
  \<comment> \<open>the letters A-Z to a-z, every other code unit unchanged\<close>
  "ascii_lower_char c =
     (let n = (of_char c :: nat) in if 65 \<le> n \<and> n \<le> 90 then char_of (n + 32) else c)"

definition path_matches :: "string \<Rightarrow> string \<Rightarrow> bool" where
  \<comment> \<open>how Express 4 matches the path of a request against a route's literal path with
      its default options: without regard to the case of ASCII letters, and with an
      optional trailing slash (the pattern is in lower case)\<close>
  "path_matches pattern p =
     (let q = map ascii_lower_char p in q = pattern \<or> q = pattern @ ''/'')"

definition handles_get :: "string \<Rightarrow> bool" where
  \<comment> \<open>a route registered with \<^verbatim>\<open>app.get\<close> also serves HEAD\<close>
  "handles_get m = (m = ''GET'' \<or> m = ''HEAD'')"

definition route :: "config \<Rightarrow> env \<Rightarrow> request \<Rightarrow> app_state \<Rightarrow> response \<times> app_state" where
  \<comment> \<open>the routes in the order in which \<^verbatim>\<open>createApp\<close> registers them\<close>
  "route cfg e req st =
     (if handles_get (http_method req) \<and> path_matches ''/api/health'' (path req)
      then health_handler cfg e st
      else if http_method req = ''POST'' \<and> path_matches ''/api/sentiment'' (path req)
      then post_sentiment e req st
      else if http_method req = ''POST'' \<and> path_matches ''/api/moods'' (path req)
      then post_moods e req st
      else if handles_get (http_method req) \<and> path_matches ''/api/moods'' (path req)
      then get_moods req st
      else (not_found e req, st))"

definition createApp :: "config \<Rightarrow> env \<Rightarrow> request \<Rightarrow> app_state \<Rightarrow> response \<times> app_state" where
  \<comment> \<open>the middleware stack of \<^verbatim>\<open>createApp\<close> on one request whose body was parsed:
      the header middleware, the body parsers and \<^verbatim>\<open>requestLogger\<close> change nothing the
      model holds, \<^verbatim>\<open>corsMiddleware\<close> answers OPTIONS itself, then comes
      \<^verbatim>\<open>rateLimitMiddleware\<close>, then the routes\<close>
  "createApp cfg e req st =
     (if http_method req = ''OPTIONS'' then (\<lparr>status = 200, body = PlainBody ''OK''\<rparr>, st)
      else
        (case rateLimitMiddleware cfg (now e) (ip req) (rateLimitStore st) of
           (Denied, store) \<Rightarrow> (rate_limit_response cfg (now e), st\<lparr>rateLimitStore := store\<rparr>)
         | (Allowed, store) \<Rightarrow> route cfg e req (st\<lparr>rateLimitStore := store\<rparr>)))"

fun submit_all :: "(env \<times> request) list \<Rightarrow> app_state \<Rightarrow> response list \<times> app_state" where
  \<comment> \<open>submit-mood requests handled one after the other, each with what the world
      gives it; the answers in order, and the state at the end\<close>
  "submit_all [] st = ([], st)"
| "submit_all ((e, req) # rest) st =
     (let (r, st1) = post_moods e req st;
          (rs, st2) = submit_all rest st1
      in (r # rs, st2))"

section \<open>Calls of the analysis in flight together\<close>

text \<open>
  \<^verbatim>\<open>analyzeSentiment\<close> and \<^verbatim>\<open>initializeSentimentPipeline\<close> are \<^verbatim>\<open>async\<close> functions:
  a call runs until its first \<^verbatim>\<open>await\<close> and each continuation runs later, as a
  step of its own, while other calls start and other continuations run in between.
  \<^item> A call that finds \<^verbatim>\<open>sentimentPipeline\<close> empty invokes
    \<^verbatim>\<open>initializeSentimentPipeline\<close>, which invokes \<^verbatim>\<open>pipeline(...)\<close> and awaits it. A
    call that finds a pipeline invokes it on its text at once.
  \<^item> When the load settles, the continuation of \<^verbatim>\<open>initializeSentimentPipeline\<close> runs: it
    assigns the shared variable and returns, or throws the service-unavailable error.
  \<^item> In a later step the continuation of \<^verbatim>\<open>analyzeSentiment\<close> runs: it throws that
    error on, or it invokes what the shared variable holds at that moment on its text.
  \<^item> When the inference settles, the call settles with its result.
  The state holds the variable, the number of invocations of \<^verbatim>\<open>pipeline(...)\<close> so far,
  and the phase of every call made.
\<close>

datatype call_phase =
    AwaitingLoad string
  | InitReturned string
  | InitThrew js_error
  | AwaitingInference "js_error + SentimentResponse"
  | Settled "js_error + SentimentResponse"

record service_state =
  pipeline_var :: "classifier option"
  init_invocations :: nat
  callers :: "call_phase list"

datatype event =
    Call string
  | LoadSettles nat "string + classifier"
  | Resumes nat
  | InferenceSettles nat

fun on_load :: "(string + classifier) \<Rightarrow> nat \<Rightarrow> service_state \<Rightarrow> call_phase \<Rightarrow> service_state" where
  "on_load loaded i s (AwaitingLoad input) =
     (case initializeSentimentPipeline loaded (pipeline_var s) of
        (Inl err, pipe) \<Rightarrow> s\<lparr>pipeline_var := pipe, callers := (callers s)[i := InitThrew err]\<rparr>
      | (Inr u, pipe) \<Rightarrow>
          s\<lparr>pipeline_var := pipe, callers := (callers s)[i := InitReturned input]\<rparr>)"
| "on_load loaded i s other = s"

fun on_resume :: "nat \<Rightarrow> service_state \<Rightarrow> call_phase \<Rightarrow> service_state" where
  "on_resume i s (InitReturned input) =
     s\<lparr>callers := (callers s)[i := AwaitingInference (run_pipeline (pipeline_var s) input)]\<rparr>"
| "on_resume i s (InitThrew err) = s\<lparr>callers := (callers s)[i := Settled (Inl err)]\<rparr>"
| "on_resume i s other = s"

fun on_inference :: "nat \<Rightarrow> service_state \<Rightarrow> call_phase \<Rightarrow> service_state" where
  "on_inference i s (AwaitingInference out) = s\<lparr>callers := (callers s)[i := Settled out]\<rparr>"
| "on_inference i s other = s"

fun service_step :: "event \<Rightarrow> service_state \<Rightarrow> service_state" where
  "service_step (Call input) s =
     (case pipeline_var s of
        None \<Rightarrow> s\<lparr>init_invocations := init_invocations s + 1,
                   callers := callers s @ [AwaitingLoad input]\<rparr>
      | Some p \<Rightarrow> s\<lparr>callers := callers s @ [AwaitingInference (run_pipeline (Some p) input)]\<rparr>)"
| "service_step (LoadSettles i loaded) s =
     (if i < length (callers s) then on_load loaded i s (callers s ! i) else s)"
| "service_step (Resumes i) s =
     (if i < length (callers s) then on_resume i s (callers s ! i) else s)"
| "service_step (InferenceSettles i) s =
     (if i < length (callers s) then on_inference i s (callers s ! i) else s)"

definition run_events :: "event list \<Rightarrow> service_state \<Rightarrow> service_state" where
  "run_events evs s = foldl (\<lambda>st ev. service_step ev st) s evs"

definition initial_service :: service_state where
  "initial_service = \<lparr>pipeline_var = None, init_invocations = 0, callers = []\<rparr>"

section \<open>Vocabulary of the properties\<close>

text \<open>
  The predicates in which the properties below are stated: what the specification calls
  an invalid text, a validation rejection, a failed initialization and a failed
  collaborator call.
\<close>

definition is_string :: "jsvalue \<Rightarrow> bool" where
  "is_string v = (case v of JString s \<Rightarrow> True | _ \<Rightarrow> False)"

definition validation_rejected :: "response \<Rightarrow> bool" where
  "validation_rejected r =
     (status r = 400 \<and> (case body r of ErrorBody er \<Rightarrow> er_error er = ''Validation Error'' | _ \<Rightarrow> False))"

definition initialization_fails :: "env \<Rightarrow> app_state \<Rightarrow> bool" where
  "initialization_fails e st = (sentimentPipeline st = None \<and> isl (pipeline_load e))"

definition pipeline_in_use :: "env \<Rightarrow> app_state \<Rightarrow> classifier option" where
  "pipeline_in_use e st =
     (case sentimentPipeline st of Some p \<Rightarrow> Some p
      | None \<Rightarrow> (case pipeline_load e of Inr p \<Rightarrow> Some p | Inl reason \<Rightarrow> None))"

definition collaborator_fails :: "env \<Rightarrow> app_state \<Rightarrow> string \<Rightarrow> bool" where
  "collaborator_fails e st input =
     (case pipeline_in_use e st of None \<Rightarrow> False
      | Some p \<Rightarrow> (case p input of Inl reason \<Rightarrow> True | Inr cs \<Rightarrow> cs = []))"

definition internal_error_body :: "int \<Rightarrow> body" where
  "internal_error_body t =
     ErrorBody \<lparr>er_error = ''Internal Server Error'',
                er_message = Text ''An unexpected error occurred'', er_timestamp = t\<rparr>"

definition created_entry :: "response \<Rightarrow> MoodEntry list" where
  \<comment> \<open>the entry that a 201 answer reports as created, if the answer is one\<close>
  "created_entry r =
     (if status r = 201 then (case body r of MoodBody en \<Rightarrow> [en] | _ \<Rightarrow> []) else [])"

definition appended_entries :: "response list \<Rightarrow> MoodEntry list" where
  \<comment> \<open>the entries that a run of submit-mood requests appended, in order\<close>
  "appended_entries rs = concat (map created_entry rs)"

definition exactly_held :: "int option \<Rightarrow> bool" where
  \<comment> \<open>\<^const>\<open>parseInt\<close> gives the integer that the digits write, and the code holds the
      double nearest to it. Up to \<open>2 ^ 53\<close> in magnitude the two are the same; the bound
      \<open>2 ^ 52\<close> keeps the sum of two such numbers exact as well.\<close>
  "exactly_held v = (case v of None \<Rightarrow> True | Some n \<Rightarrow> \<bar>n\<bar> \<le> 2 ^ 52)"

definition trimmed_of :: "string \<Rightarrow> string \<Rightarrow> bool" where
  \<comment> \<open>\<open>t\<close> is \<open>s\<close> without its leading and trailing white space: white space and
      nothing else was taken from both ends, and none is left at either end\<close>
  "trimmed_of s t =
     (\<exists>pre post. s = pre @ t @ post
        \<and> (\<forall>c \<in> set pre. is_js_whitespace c) \<and> (\<forall>c \<in> set post. is_js_whitespace c)
        \<and> (t \<noteq> [] \<longrightarrow> \<not> is_js_whitespace (hd t) \<and> \<not> is_js_whitespace (last t)))"

definition text_invalid :: "jsvalue \<Rightarrow> bool" where
  "text_invalid v =
     (\<not> is_string v \<or> length (js_trim (string_of v)) = 0 \<or> 1000 < length (string_of v))"

text \<open>
  The state in which the module starts (no entries, no pipeline, an empty record map),
  and the inputs on which the properties are run: a collaborator stub that answers
  \<^verbatim>\<open>POSITIVE\<close> with score 0.91, one that rejects every call, and requests.
\<close>

definition initial_state :: app_state where
  "initial_state = \<lparr>moodEntries = [], sentimentPipeline = None, rateLimitStore = Map.empty\<rparr>"

definition double_0_91 :: rat where
  \<comment> \<open>the double that the literal \<^verbatim>\<open>0.91\<close> denotes\<close>
  "double_0_91 = 8196551321814303 / 9007199254740992"

definition double_0_88 :: rat where
  \<comment> \<open>the double that the literal \<^verbatim>\<open>0.88\<close> denotes\<close>
  "double_0_88 = 7926335344172073 / 9007199254740992"


definition stub_classifier :: classifier where
  "stub_classifier = (\<lambda>input. Inr [\<lparr>label = ''POSITIVE'', score = double_0_91\<rparr>])"

definition second_classifier :: classifier where
  "second_classifier = (\<lambda>input. Inr [\<lparr>label = ''NEGATIVE'', score = double_0_88\<rparr>])"

definition rejecting_classifier :: classifier where
  "rejecting_classifier = (\<lambda>input. Inl ''inference failed'')"

definition post_request :: "string \<Rightarrow> jsvalue \<Rightarrow> request" where
  "post_request p v =
     \<lparr>http_method = ''POST'', path = p, ip = Some ''10.0.0.1'', body_text = v,
      query_limit = None, query_offset = None\<rparr>"

definition get_request :: "string \<Rightarrow> string option \<Rightarrow> string option \<Rightarrow> request" where
  "get_request p l off =
     \<lparr>http_method = ''GET'', path = p, ip = Some ''10.0.0.1'', body_text = JUndefined,
      query_limit = l, query_offset = off\<rparr>"

text \<open>
  The configuration when the environment sets nothing, and two ledger entries.
\<close>

definition default_config :: config where
  "default_config = \<lparr>nodeEnv = ''development'', rateLimitWindow = 900000, rateLimitMax = 100\<rparr>"

definition entry_a :: MoodEntry where
  "entry_a = \<lparr>me_id = (1, ''a1a''), me_text = ''Great'', me_sentiment = Positive,
               me_confidence = double_0_91, me_timestamp = 1\<rparr>"

definition entry_b :: MoodEntry where
  "entry_b = \<lparr>me_id = (2, ''b2b''), me_text = ''Awful'', me_sentiment = Negative,
               me_confidence = double_0_88, me_timestamp = 2\<rparr>"

section \<open>Properties of the ledger\<close>

lemma drop_snoc_step:
  "k < length xs \<Longrightarrow> drop (Suc 0) (drop k xs @ [e]) = drop (Suc k) (xs @ [e])"
  by simp

lemma ledger_append_drop:
  "ledger_append l e = drop (Suc (length l) - ledger_cap) (l @ [e])"
  by (simp add: ledger_append_def js_splice_front_def Let_def)

lemma ledger_append_from:
  "length l0 \<le> ledger_cap \<Longrightarrow>
   foldl ledger_append l0 es = drop (length l0 + length es - ledger_cap) (l0 @ es)"
proof (induction es rule: rev_induct)
  case Nil
  then show ?case by simp
next
  case (snoc e es)
  define xs where "xs = l0 @ es"
  define k where "k = length xs - ledger_cap"
  have ih: "foldl ledger_append l0 es = drop k xs"
    using snoc by (simp add: xs_def k_def)
  have step: "foldl ledger_append l0 (es @ [e]) = ledger_append (drop k xs) e"
    by (simp only: foldl_append foldl.simps ih)
  have app: "ledger_append (drop k xs) e
               = drop (Suc (length (drop k xs)) - ledger_cap) (drop k xs @ [e])"
    by (rule ledger_append_drop)
  have goal: "ledger_append (drop k xs) e = drop (Suc (length xs) - ledger_cap) (xs @ [e])"
  proof (cases "length xs < ledger_cap")
    case True
    then show ?thesis
      unfolding app by (simp add: k_def)
  next
    case False
    then have len: "length (drop k xs) = ledger_cap" and k: "k < length xs"
      and Sk: "Suc (length xs) - ledger_cap = Suc k"
      by (simp_all add: k_def ledger_cap_def)
    show ?thesis
      unfolding app len Sk using drop_snoc_step [OF k] by simp
  qed
  show ?case
    unfolding step goal by (simp add: xs_def)
qed

text \<open>
  Appending N entries to the empty ledger, one after the other, leaves exactly the last
  min(N, 1000) of them, in the order in which they were appended.
\<close>

lemma appends_keep_most_recent:
  "foldl ledger_append [] es = drop (length es - 1000) es
   \<and> length (foldl ledger_append [] es) = min (length es) 1000
   \<and> (\<forall>n. length (foldl ledger_append [] (take n es)) \<le> 1000)"
proof -
  have eq: "foldl ledger_append [] xs = drop (length xs - 1000) xs" for xs
    using ledger_append_from [of "[]" xs] by (simp add: ledger_cap_def)
  have "length (foldl ledger_append [] xs) \<le> 1000" for xs
    by (simp add: eq)
  then show ?thesis
    by (auto simp: eq)
qed

section \<open>The result of an analysis\<close>





lemma pow2_mono: "a \<le> b \<Longrightarrow> (power_int 2 a :: rat) \<le> power_int 2 b"
  by (rule power_int_increasing) simp_all

lemma pow2_less_imp: "(power_int 2 a :: rat) < power_int 2 b \<Longrightarrow> a < b"
  using pow2_mono [of b a] by (cases "a < b") simp_all


lemma expo_search_ge: "- 1022 \<le> expo_search x n"
  by (induction n) simp_all


lemma expo_search_eq:
  "power_int 2 e \<le> x \<Longrightarrow> x < power_int 2 (e + 1) \<Longrightarrow> - 1022 \<le> e \<Longrightarrow>
   e \<le> int n - 1022 \<Longrightarrow> expo_search x n = e"
proof (induction n)
  case 0
  then show ?case by simp
next
  case (Suc n)
  show ?case
  proof (cases "power_int 2 (int (Suc n) - 1022) \<le> x")
    case True
    then have "(power_int 2 (int (Suc n) - 1022) :: rat) < power_int 2 (e + 1)"
      using Suc.prems(2) by simp
    then have "int (Suc n) - 1022 < e + 1"
      by (rule pow2_less_imp)
    then show ?thesis using True Suc.prems(4) by simp
  next
    case False
    then have "(power_int 2 e :: rat) < power_int 2 (int (Suc n) - 1022)"
      using Suc.prems(1) by simp
    then have "e < int (Suc n) - 1022"
      by (rule pow2_less_imp)
    then show ?thesis using False Suc by simp
  qed
qed

lemma exponent64_eq:
  "power_int 2 e \<le> x \<Longrightarrow> x < power_int 2 (e + 1) \<Longrightarrow> - 1022 \<le> e \<Longrightarrow> e \<le> 1023 \<Longrightarrow>
   exponent64 x = e"
  unfolding exponent64_def by (rule expo_search_eq) simp_all



lemma round64_at:
  assumes "0 \<le> x" and "power_int 2 e \<le> x" and "x < power_int 2 (e + 1)"
    and "- 1022 \<le> e" and "e \<le> 1023"
  shows "round64 x = of_int (round_half_even (x / power_int 2 (e - 52))) * power_int 2 (e - 52)"
  using assms(1) exponent64_eq [OF assms(2-5)] by (simp add: round64_def Let_def)

lemma round_half_even_at:
  assumes "of_int f \<le> q" and "q < of_int f + 1"
  shows "round_half_even q =
     (if q - of_int f < 1 / 2 then f else if 1 / 2 < q - of_int f then f + 1
      else if even f then f else f + 1)"
  using floor_unique [OF assms] by (simp add: round_half_even_def Let_def)

lemma mul_0_91: "double_mul double_0_91 100 = 91"
  unfolding double_mul_def double_0_91_def
  by (subst round64_at [where e = 6], simp_all)
    (subst round_half_even_at [where f = 6403555720167424], simp_all)

lemma div_91: "double_div 91 100 = double_0_91"
  unfolding double_div_def double_0_91_def
  by (subst round64_at [where e = "- 1"], simp_all)
    (subst round_half_even_at [where f = 8196551321814302], simp_all)




lemma div_88: "double_div 88 100 = double_0_88"
  unfolding double_div_def double_0_88_def
  by (subst round64_at [where e = "- 1"], simp_all)
    (subst round_half_even_at [where f = 7926335344172072], simp_all)

lemma mul_0_88: "double_mul double_0_88 100 = 88"
  unfolding double_mul_def double_0_88_def
  by (subst round64_at [where e = 6], simp_all)
    (subst round_half_even_at [where f = 6192449487634432], simp_all)


lemma trimmed_of_unique:
  assumes "trimmed_of s t"
  shows "t = js_trim s"
proof -
  obtain pre post where s: "s = pre @ t @ post"
    and pre: "\<forall>c \<in> set pre. is_js_whitespace c"
    and post: "\<forall>c \<in> set post. is_js_whitespace c"
    and ends: "t \<noteq> [] \<longrightarrow> \<not> is_js_whitespace (hd t) \<and> \<not> is_js_whitespace (last t)"
    using assms unfolding trimmed_of_def by blast
  have all_post: "dropWhile is_js_whitespace post = []"
    using post by simp
  have all_rev: "dropWhile is_js_whitespace (rev post @ ys) = dropWhile is_js_whitespace ys" for ys
    using post by (simp add: dropWhile_append)
  have front: "dropWhile is_js_whitespace s = dropWhile is_js_whitespace (t @ post)"
    using pre by (simp add: s dropWhile_append)
  show ?thesis
  proof (cases "t = []")
    case True
    then show ?thesis
      using front all_post by (simp add: js_trim_def del: dropWhile_eq_Nil_conv)
  next
    case False
    then have h: "\<not> is_js_whitespace (hd t)" and l: "\<not> is_js_whitespace (last t)"
      using ends by simp_all
    have "dropWhile is_js_whitespace (t @ post) = t @ post"
      using False h by (cases t) simp_all
    moreover have "dropWhile is_js_whitespace (rev t) = rev t"
      using False l by (cases "rev t") (simp_all add: last_rev [symmetric] hd_rev)
    ultimately show ?thesis
      using front all_rev [of "rev t"] by (simp add: js_trim_def)
  qed
qed


lemma lower_POSITIVE: "js_toLowerCase ''POSITIVE'' = ''positive''"
  by code_simp

lemma trim_Great: "js_trim ''Great'' = ''Great''"
  by (simp add: js_trim_def is_js_whitespace_def)


lemma round_91: "math_round 91 = 91"
  by (simp add: math_round_def floor_eq_iff)

lemma round_88: "math_round 88 = 88"
  by (simp add: math_round_def floor_eq_iff)

lemma stub_result:
  "normalize_result input \<lparr>label = ''POSITIVE'', score = double_0_91\<rparr>
     = \<lparr>sr_sentiment = Positive, sr_confidence = double_0_91, sr_text = js_trim input\<rparr>"
  by (simp add: normalize_result_def lower_POSITIVE mul_0_91 round_91 div_91)



section \<open>The two POST routes\<close>

lemma error_status_failed: "error_status (Error ''Failed to analyze sentiment'') = 500"
  by (simp add: error_status_def)

lemma error_status_unavailable:
  "error_status (Error ''Sentiment analysis service unavailable'') = 503"
  by (simp add: error_status_def)

lemma validate_iff:
  "(validateSentimentInput t v = None) =
     (is_string v \<and> length (js_trim (string_of v)) \<noteq> 0 \<and> length (string_of v) \<le> 1000)"
  by (cases v) (auto simp: validateSentimentInput_def is_string_def js_falsy_def js_typeof_def js_trim_def)

lemma validate_rejects:
  "validateSentimentInput t v = Some r \<Longrightarrow> validation_rejected r"
  by (auto simp: validateSentimentInput_def validation_rejected_def validation_error_def
      split: if_splits)

lemma analyze_outcome:
  "analyzeSentiment (pipeline_load e) (sentimentPipeline st) input =
     (if initialization_fails e st
      then (Inl (Error ''Sentiment analysis service unavailable''), sentimentPipeline st)
      else (run_pipeline (pipeline_in_use e st) input, pipeline_in_use e st))"
  by (auto simp: analyzeSentiment_def initializeSentimentPipeline_def initialization_fails_def
      pipeline_in_use_def split: option.splits sum.splits)

lemma run_pipeline_fails:
  "\<not> initialization_fails e st \<Longrightarrow>
   (\<exists>err. run_pipeline (pipeline_in_use e st) input = Inl err) = collaborator_fails e st input"
  by (auto simp: run_pipeline_def collaborator_fails_def pipeline_in_use_def initialization_fails_def
      split: option.splits sum.splits list.splits)

lemma run_pipeline_error:
  "run_pipeline pipe input = Inl err \<Longrightarrow> err = Error ''Failed to analyze sentiment''"
  by (auto simp: run_pipeline_def split: option.splits sum.splits list.splits)

lemma errorHandler_failed:
  "errorHandler t (Error ''Failed to analyze sentiment'') = \<lparr>status = 500, body = internal_error_body t\<rparr>"
  by (simp add: errorHandler_def error_status_failed internal_error_body_def)

lemma errorHandler_unavailable:
  "errorHandler t (Error ''Sentiment analysis service unavailable'') =
     \<lparr>status = 503,
      body = ErrorBody \<lparr>er_error = ''Sentiment analysis service unavailable'',
                       er_message = Text ''Sentiment analysis service unavailable'',
                       er_timestamp = t\<rparr>\<rparr>"
  by (simp add: errorHandler_def error_status_unavailable)

lemma post_sentiment_cases:
  "post_sentiment e req st =
     (case validateSentimentInput (now e) (body_text req) of
        Some rejected \<Rightarrow> (rejected, st)
      | None \<Rightarrow>
          if initialization_fails e st
          then (errorHandler (now e) (Error ''Sentiment analysis service unavailable''), st)
          else (case run_pipeline (pipeline_in_use e st) (string_of (body_text req)) of
                  Inl err \<Rightarrow> (errorHandler (now e) (Error ''Failed to analyze sentiment''),
                              st\<lparr>sentimentPipeline := pipeline_in_use e st\<rparr>)
                | Inr r \<Rightarrow> (\<lparr>status = 200, body = SentimentBody r\<rparr>,
                            st\<lparr>sentimentPipeline := pipeline_in_use e st\<rparr>)))"
  by (auto simp: post_sentiment_def analyze_outcome Let_def dest: run_pipeline_error
      split: option.splits sum.splits)

lemma post_moods_cases:
  "post_moods e req st =
     (case validateSentimentInput (now e) (body_text req) of
        Some rejected \<Rightarrow> (rejected, st)
      | None \<Rightarrow>
          if initialization_fails e st
          then (errorHandler (now e) (Error ''Sentiment analysis service unavailable''), st)
          else (case run_pipeline (pipeline_in_use e st) (string_of (body_text req)) of
                  Inl err \<Rightarrow> (errorHandler (now e) (Error ''Failed to analyze sentiment''),
                              st\<lparr>sentimentPipeline := pipeline_in_use e st\<rparr>)
                | Inr r \<Rightarrow>
                    (\<lparr>status = 201,
                      body = MoodBody \<lparr>me_id = (now e, random_suffix e), me_text = sr_text r,
                               me_sentiment = sr_sentiment r, me_confidence = sr_confidence r,
                               me_timestamp = now e\<rparr>\<rparr>,
                     st\<lparr>sentimentPipeline := pipeline_in_use e st,
                        moodEntries := ledger_append (moodEntries st)
                          \<lparr>me_id = (now e, random_suffix e), me_text = sr_text r,
                           me_sentiment = sr_sentiment r, me_confidence = sr_confidence r,
                           me_timestamp = now e\<rparr>\<rparr>)))"
  by (auto simp: post_moods_def analyze_outcome Let_def dest: run_pipeline_error
      split: option.splits sum.splits)

lemma validate_None_iff:
  "(validateSentimentInput t v = None) = (\<not> text_invalid v)"
  by (auto simp: validate_iff text_invalid_def)

lemma post_sentiment_status:
  "status (fst (post_sentiment e req st)) =
     (if text_invalid (body_text req) then 400
      else if initialization_fails e st then 503
      else if collaborator_fails e st (string_of (body_text req)) then 500 else 200)"
proof (cases "validateSentimentInput (now e) (body_text req)")
  case None
  then have ok: "\<not> text_invalid (body_text req)"
    by (simp add: validate_None_iff)
  show ?thesis
  proof (cases "initialization_fails e st")
    case True
    then show ?thesis
      using None ok by (simp add: post_sentiment_cases errorHandler_unavailable)
  next
    case False
    then show ?thesis
      using None ok run_pipeline_fails [OF False, of "string_of (body_text req)"]
      by (auto simp: post_sentiment_cases errorHandler_failed split: sum.splits)
  qed
next
  case (Some r)
  then have "text_invalid (body_text req)"
    using validate_None_iff [of "now e" "body_text req"] by simp
  then show ?thesis
    using Some validate_rejects [OF Some]
    by (simp add: post_sentiment_cases validation_rejected_def)
qed

lemma post_moods_status:
  "status (fst (post_moods e req st)) =
     (if text_invalid (body_text req) then 400
      else if initialization_fails e st then 503
      else if collaborator_fails e st (string_of (body_text req)) then 500 else 201)"
proof (cases "validateSentimentInput (now e) (body_text req)")
  case None
  then have ok: "\<not> text_invalid (body_text req)"
    by (simp add: validate_None_iff)
  show ?thesis
  proof (cases "initialization_fails e st")
    case True
    then show ?thesis
      using None ok by (simp add: post_moods_cases errorHandler_unavailable)
  next
    case False
    then show ?thesis
      using None ok run_pipeline_fails [OF False, of "string_of (body_text req)"]
      by (auto simp: post_moods_cases errorHandler_failed split: sum.splits)
  qed
next
  case (Some r)
  then have "text_invalid (body_text req)"
    using validate_None_iff [of "now e" "body_text req"] by simp
  then show ?thesis
    using Some validate_rejects [OF Some]
    by (simp add: post_moods_cases validation_rejected_def)
qed

lemma post_sentiment_rejected:
  "text_invalid (body_text req) \<Longrightarrow> validation_rejected (fst (post_sentiment e req st))"
  using validate_None_iff [of "now e" "body_text req"]
  by (auto simp: post_sentiment_cases dest: validate_rejects split: option.splits)

lemma post_moods_rejected:
  "text_invalid (body_text req) \<Longrightarrow> validation_rejected (fst (post_moods e req st))"
  using validate_None_iff [of "now e" "body_text req"]
  by (auto simp: post_moods_cases dest: validate_rejects split: option.splits)

text \<open>
  C6. \<^verbatim>\<open>POST /api/sentiment\<close> and \<^verbatim>\<open>POST /api/moods\<close> (the validator followed by
  the handler, for a request that reached the route) answer 400, with the error label
  \<^verbatim>\<open>Validation Error\<close>, if and only if the \<^verbatim>\<open>text\<close> field is absent or not a string, or
  its trimmed length is 0, or its untrimmed length exceeds 1000; a request that violates
  none of the three passes the validator.
\<close>

theorem validation_rejects_exactly:
  "(status (fst (post_sentiment e req st)) = 400) = text_invalid (body_text req)
   \<and> (status (fst (post_moods e req st)) = 400) = text_invalid (body_text req)
   \<and> validation_rejected (fst (post_sentiment e req st)) = text_invalid (body_text req)
   \<and> validation_rejected (fst (post_moods e req st)) = text_invalid (body_text req)
   \<and> (validateSentimentInput (now e) (body_text req) = None) = (\<not> text_invalid (body_text req))"
proof -
  have s: "(status (fst (post_sentiment e req st)) = 400) = text_invalid (body_text req)"
    by (simp add: post_sentiment_status)
  have m: "(status (fst (post_moods e req st)) = 400) = text_invalid (body_text req)"
    by (simp add: post_moods_status)
  have "validation_rejected (fst (post_sentiment e req st)) = text_invalid (body_text req)"
    using s post_sentiment_rejected [of req e st] by (auto simp: validation_rejected_def)
  moreover have "validation_rejected (fst (post_moods e req st)) = text_invalid (body_text req)"
    using m post_moods_rejected [of req e st] by (auto simp: validation_rejected_def)
  ultimately show ?thesis
    using s m validate_None_iff by simp
qed

lemma blank_invalid: "text_invalid (JString [CHR '' '', CHR 0x09, CHR 0x0A])"
  by (simp add: text_invalid_def js_trim_def is_js_whitespace_def)

lemma Great_valid: "\<not> text_invalid (JString ''Great'')"
  by (simp add: text_invalid_def js_trim_def is_js_whitespace_def is_string_def)

theorem validation_rejects_exactly_witness:
  "status (fst (post_sentiment \<lparr>now = 5, random_suffix = ''k3x'', pipeline_load = Inr stub_classifier\<rparr>
       (post_request ''/api/sentiment'' (JString [CHR '' '', CHR 0x09, CHR 0x0A])) initial_state)) = 400
   \<and> status (fst (post_moods \<lparr>now = 5, random_suffix = ''k3x'', pipeline_load = Inr stub_classifier\<rparr>
       (post_request ''/api/moods'' JUndefined) initial_state)) = 400
   \<and> status (fst (post_moods \<lparr>now = 5, random_suffix = ''k3x'', pipeline_load = Inr stub_classifier\<rparr>
       (post_request ''/api/moods'' (JString ''Great'')) initial_state)) \<noteq> 400"
  using validation_rejects_exactly [of "\<lparr>now = 5, random_suffix = ''k3x'', pipeline_load = Inr stub_classifier\<rparr>"
      "post_request ''/api/sentiment'' (JString [CHR '' '', CHR 0x09, CHR 0x0A])" initial_state]
    validation_rejects_exactly [of "\<lparr>now = 5, random_suffix = ''k3x'', pipeline_load = Inr stub_classifier\<rparr>"
      "post_request ''/api/moods'' JUndefined" initial_state]
    validation_rejects_exactly [of "\<lparr>now = 5, random_suffix = ''k3x'', pipeline_load = Inr stub_classifier\<rparr>"
      "post_request ''/api/moods'' (JString ''Great'')" initial_state]
  by (simp add: post_request_def blank_invalid Great_valid)
    (simp add: text_invalid_def is_string_def)

text \<open>
  Through the whole stack a POST to either route is answered 400 exactly when the rate
  limiter admits it and its text is invalid; a denied request is answered 429 whatever
  its text.
\<close>

lemma post_through_app:
  assumes "http_method req = ''POST''"
    and "path_matches ''/api/sentiment'' (path req) \<or> path_matches ''/api/moods'' (path req)"
  shows "(status (fst (createApp cfg e req st)) = 400) =
     (fst (rateLimitMiddleware cfg (now e) (ip req) (rateLimitStore st)) = Allowed
      \<and> text_invalid (body_text req))"
proof -
  obtain d store where m: "rateLimitMiddleware cfg (now e) (ip req) (rateLimitStore st) = (d, store)"
    by (cases "rateLimitMiddleware cfg (now e) (ip req) (rateLimitStore st)")
  show ?thesis
    using assms
    by (cases d)
      (auto simp: createApp_def route_def handles_get_def m rate_limit_response_def
        post_sentiment_status post_moods_status)
qed

text \<open>
  C8. On both POST routes, a failure of the collaborator (the loaded pipeline rejects the
  call or returns no classification) gives status 500 with the fixed body
  \<^verbatim>\<open>Internal Server Error\<close> / \<^verbatim>\<open>An unexpected error occurred\<close>, whatever the reason
  of the failure; status 503 is given exactly when the request has to load the pipeline
  and the load fails.
\<close>

theorem failure_classification:
  "(status (fst (post_sentiment e req st)) = 500) =
     (\<not> text_invalid (body_text req) \<and> collaborator_fails e st (string_of (body_text req)))
   \<and> (status (fst (post_moods e req st)) = 500) =
     (\<not> text_invalid (body_text req) \<and> collaborator_fails e st (string_of (body_text req)))
   \<and> (status (fst (post_sentiment e req st)) = 503) =
     (\<not> text_invalid (body_text req) \<and> initialization_fails e st)
   \<and> (status (fst (post_moods e req st)) = 503) =
     (\<not> text_invalid (body_text req) \<and> initialization_fails e st)
   \<and> (status (fst (post_sentiment e req st)) = 500 \<longrightarrow>
        body (fst (post_sentiment e req st)) = internal_error_body (now e))
   \<and> (status (fst (post_moods e req st)) = 500 \<longrightarrow>
        body (fst (post_moods e req st)) = internal_error_body (now e))"
proof -
  have excl: "\<not> (initialization_fails e st \<and> collaborator_fails e st input)" for input
    by (auto simp: initialization_fails_def collaborator_fails_def pipeline_in_use_def
        split: option.splits sum.splits)
  have b1: "body (fst (post_sentiment e req st)) = internal_error_body (now e)"
    if "status (fst (post_sentiment e req st)) = 500"
    using that validate_None_iff [of "now e" "body_text req"]
    by (auto simp: post_sentiment_cases errorHandler_failed errorHandler_unavailable
        validation_rejected_def dest!: validate_rejects split: option.splits if_splits sum.splits)
  have b2: "body (fst (post_moods e req st)) = internal_error_body (now e)"
    if "status (fst (post_moods e req st)) = 500"
    using that validate_None_iff [of "now e" "body_text req"]
    by (auto simp: post_moods_cases errorHandler_failed errorHandler_unavailable
        validation_rejected_def dest!: validate_rejects split: option.splits if_splits sum.splits)
  show ?thesis
    using excl [of "string_of (body_text req)"] b1 b2
    by (auto simp: post_sentiment_status post_moods_status)
qed

theorem failure_classification_witness:
  "status (fst (post_sentiment \<lparr>now = 7, random_suffix = ''k3x'', pipeline_load = Inl ''not used''\<rparr>
       (post_request ''/api/sentiment'' (JString ''Great''))
       (initial_state\<lparr>sentimentPipeline := Some rejecting_classifier\<rparr>))) = 500
   \<and> body (fst (post_sentiment \<lparr>now = 7, random_suffix = ''k3x'', pipeline_load = Inl ''not used''\<rparr>
       (post_request ''/api/sentiment'' (JString ''Great''))
       (initial_state\<lparr>sentimentPipeline := Some rejecting_classifier\<rparr>))) = internal_error_body 7
   \<and> status (fst (post_moods \<lparr>now = 7, random_suffix = ''k3x'', pipeline_load = Inl ''model missing''\<rparr>
       (post_request ''/api/moods'' (JString ''Great'')) initial_state)) = 503"
  using failure_classification [of "\<lparr>now = 7, random_suffix = ''k3x'', pipeline_load = Inl ''not used''\<rparr>"
      "post_request ''/api/sentiment'' (JString ''Great'')"
      "initial_state\<lparr>sentimentPipeline := Some rejecting_classifier\<rparr>"]
    failure_classification [of "\<lparr>now = 7, random_suffix = ''k3x'', pipeline_load = Inl ''model missing''\<rparr>"
      "post_request ''/api/moods'' (JString ''Great'')" initial_state]
  by (simp add: post_request_def Great_valid collaborator_fails_def pipeline_in_use_def
      initialization_fails_def initial_state_def rejecting_classifier_def)

text \<open>
  Through the whole stack no other request is answered 503.
\<close>

lemma unavailable_through_app:
  "(status (fst (createApp cfg e req st)) = 503) =
     (http_method req = ''POST''
      \<and> (path_matches ''/api/sentiment'' (path req) \<or> path_matches ''/api/moods'' (path req))
      \<and> fst (rateLimitMiddleware cfg (now e) (ip req) (rateLimitStore st)) = Allowed
      \<and> \<not> text_invalid (body_text req)
      \<and> initialization_fails e st)"
proof -
  obtain d store where m: "rateLimitMiddleware cfg (now e) (ip req) (rateLimitStore st) = (d, store)"
    by (cases "rateLimitMiddleware cfg (now e) (ip req) (rateLimitStore st)")
  have i: "initialization_fails e (s\<lparr>rateLimitStore := r\<rparr>) = initialization_fails e s" for s r
    by (simp add: initialization_fails_def)
  have g: "status (fst (get_moods req s)) = 200" for s
    by (simp add: get_moods_def arr_slice_all_def arr_reverse_def arr_slice_def heap_alloc_def
        heap_read_def Let_def)
  show ?thesis
    by (cases d)
      (auto simp: createApp_def route_def handles_get_def m rate_limit_response_def
        post_sentiment_status post_moods_status health_handler_def not_found_def g i)
qed

text \<open>
  C9. A \<^verbatim>\<open>POST /api/moods\<close> on which the analysis fails, and more generally one that is
  not answered with 201, leaves the ledger as it was.
\<close>

theorem failed_submit_leaves_ledger:
  assumes "(\<exists>err. fst (analyzeSentiment (pipeline_load e) (sentimentPipeline st)
                        (string_of (body_text req))) = Inl err)
           \<or> status (fst (post_moods e req st)) \<noteq> 201"
  shows "moodEntries (snd (post_moods e req st)) = moodEntries st"
proof -
  have "status (fst (post_moods e req st)) \<noteq> 201"
    using assms
    by (auto simp: post_moods_cases analyze_outcome errorHandler_failed errorHandler_unavailable
        validation_rejected_def dest!: validate_rejects split: option.splits if_splits sum.splits)
  then show ?thesis
    by (auto simp: post_moods_cases split: option.splits if_splits sum.splits)
qed

theorem failed_submit_leaves_ledger_witness:
  "fst (analyzeSentiment (Inl ''not used'') (Some rejecting_classifier) ''Great'')
     = Inl (Error ''Failed to analyze sentiment'')
   \<and> moodEntries (snd (post_moods \<lparr>now = 7, random_suffix = ''k3x'', pipeline_load = Inl ''not used''\<rparr>
        (post_request ''/api/moods'' (JString ''Great''))
        (initial_state\<lparr>sentimentPipeline := Some rejecting_classifier\<rparr>))) = []"
  using failed_submit_leaves_ledger [of "\<lparr>now = 7, random_suffix = ''k3x'', pipeline_load = Inl ''not used''\<rparr>"
      "initial_state\<lparr>sentimentPipeline := Some rejecting_classifier\<rparr>"
      "post_request ''/api/moods'' (JString ''Great'')"]
  by (simp add: post_request_def initial_state_def rejecting_classifier_def analyzeSentiment_def
      run_pipeline_def)

section \<open>The ledger under submissions\<close>

text \<open>
  A request answered with 201 appends the entry it returns, by \<^const>\<open>ledger_append\<close>, and
  any other answer appends nothing.
\<close>

lemma submit_appends:
  "status (fst (post_moods e req st)) = 201 \<Longrightarrow>
   \<exists>entry. body (fst (post_moods e req st)) = MoodBody entry
     \<and> moodEntries (snd (post_moods e req st)) = ledger_append (moodEntries st) entry"
  by (auto simp: post_moods_cases errorHandler_failed errorHandler_unavailable
      validation_rejected_def dest!: validate_rejects split: option.splits if_splits sum.splits)

lemma post_moods_ledger:
  "moodEntries (snd (post_moods e req st))
     = foldl ledger_append (moodEntries st) (created_entry (fst (post_moods e req st)))"
  by (auto simp: post_moods_cases created_entry_def errorHandler_failed errorHandler_unavailable
      validation_rejected_def dest!: validate_rejects split: option.splits if_splits sum.splits)

lemma submit_all_Cons:
  "submit_all ((e, req) # rest) st =
     (fst (post_moods e req st) # fst (submit_all rest (snd (post_moods e req st))),
      snd (submit_all rest (snd (post_moods e req st))))"
  by (simp add: split_beta)

lemma submit_all_ledger:
  "moodEntries (snd (submit_all reqs st))
     = foldl ledger_append (moodEntries st) (appended_entries (fst (submit_all reqs st)))"
proof (induction reqs arbitrary: st)
  case Nil
  then show ?case by (simp add: appended_entries_def)
next
  case (Cons x reqs)
  obtain e req where x: "x = (e, req)"
    by (cases x)
  show ?case
    unfolding x submit_all_Cons fst_conv snd_conv
    by (simp add: Cons.IH post_moods_ledger appended_entries_def)
qed

text \<open>
  C4. Submit-mood requests handled one after the other from an empty ledger: where N of
  them are answered 201, the ledger afterwards holds exactly the last min(N, 1000) of the
  entries those answers report, in the order of the requests; its size is min(N, 1000),
  and after every request of the sequence it is at most 1000.
\<close>

theorem ledger_keeps_most_recent:
  assumes "moodEntries st = []"
  shows "moodEntries (snd (submit_all reqs st))
           = drop (length (appended_entries (fst (submit_all reqs st))) - 1000)
               (appended_entries (fst (submit_all reqs st)))
     \<and> length (moodEntries (snd (submit_all reqs st)))
           = min (length (appended_entries (fst (submit_all reqs st)))) 1000
     \<and> (\<forall>n. length (moodEntries (snd (submit_all (take n reqs) st))) \<le> 1000)"
proof -
  have eq: "moodEntries (snd (submit_all rs st))
      = drop (length (appended_entries (fst (submit_all rs st))) - 1000)
          (appended_entries (fst (submit_all rs st)))" for rs
    using submit_all_ledger [of rs st] appends_keep_most_recent
    by (simp add: assms)
  have "length (moodEntries (snd (submit_all rs st))) \<le> 1000" for rs
    by (subst eq) simp
  then show ?thesis
    using eq [of reqs] by auto
qed

lemma ready_submission:
  assumes "sentimentPipeline st = Some stub_classifier"
  shows "post_moods \<lparr>now = t, random_suffix = ''k3x'', pipeline_load = Inl ''not used''\<rparr>
       (post_request ''/api/moods'' (JString ''Great'')) st
     = (\<lparr>status = 201,
         body = MoodBody \<lparr>me_id = (t, ''k3x''), me_text = ''Great'', me_sentiment = Positive,
                  me_confidence = double_0_91, me_timestamp = t\<rparr>\<rparr>,
        st\<lparr>moodEntries := ledger_append (moodEntries st)
             \<lparr>me_id = (t, ''k3x''), me_text = ''Great'', me_sentiment = Positive,
              me_confidence = double_0_91, me_timestamp = t\<rparr>\<rparr>)"
proof -
  have v: "validateSentimentInput t (JString ''Great'') = None"
    using Great_valid by (simp add: validate_None_iff)
  have c: "stub_classifier ''Great'' = Inr [\<lparr>label = ''POSITIVE'', score = double_0_91\<rparr>]"
    by (simp add: stub_classifier_def)
  have same: "st\<lparr>sentimentPipeline := Some stub_classifier\<rparr> = st"
    using assms by (cases st) simp
  show ?thesis
    using assms v
    by (simp add: post_moods_def post_request_def analyzeSentiment_def run_pipeline_def
        c stub_result trim_Great same Let_def)
qed

lemma ready_submissions:
  assumes "sentimentPipeline st = Some stub_classifier"
  shows "fst (submit_all
       (replicate n (\<lparr>now = t, random_suffix = ''k3x'', pipeline_load = Inl ''not used''\<rparr>,
                     post_request ''/api/moods'' (JString ''Great''))) st)
     = replicate n \<lparr>status = 201,
         body = MoodBody \<lparr>me_id = (t, ''k3x''), me_text = ''Great'', me_sentiment = Positive,
                  me_confidence = double_0_91, me_timestamp = t\<rparr>\<rparr>"
  using assms
proof (induction n arbitrary: st)
  case 0
  then show ?case by simp
next
  case (Suc n)
  have "sentimentPipeline (st\<lparr>moodEntries := m\<rparr>) = Some stub_classifier" for m
    using Suc.prems by simp
  then show ?case
    using Suc.IH by (simp add: submit_all_Cons ready_submission [OF Suc.prems] del: submit_all.simps(2))
qed

theorem ledger_keeps_most_recent_witness:
  "moodEntries (initial_state\<lparr>sentimentPipeline := Some stub_classifier\<rparr>) = []
   \<and> moodEntries (snd (submit_all
        (replicate 1001 (\<lparr>now = 7, random_suffix = ''k3x'', pipeline_load = Inl ''not used''\<rparr>,
                         post_request ''/api/moods'' (JString ''Great'')))
        (initial_state\<lparr>sentimentPipeline := Some stub_classifier\<rparr>)))
      = replicate 1000 \<lparr>me_id = (7, ''k3x''), me_text = ''Great'', me_sentiment = Positive,
                         me_confidence = double_0_91, me_timestamp = 7\<rparr>
   \<and> moodEntries (snd (submit_all
        [(\<lparr>now = 7, random_suffix = ''k3x'', pipeline_load = Inl ''not used''\<rparr>,
          post_request ''/api/moods'' (JString ''Great'')),
         (\<lparr>now = 8, random_suffix = ''m4y'', pipeline_load = Inl ''not used''\<rparr>,
          post_request ''/api/moods'' JUndefined),
         (\<lparr>now = 9, random_suffix = ''k3x'', pipeline_load = Inl ''not used''\<rparr>,
          post_request ''/api/moods'' (JString ''Great''))]
        (initial_state\<lparr>sentimentPipeline := Some stub_classifier\<rparr>)))
      = [\<lparr>me_id = (7, ''k3x''), me_text = ''Great'', me_sentiment = Positive,
          me_confidence = double_0_91, me_timestamp = 7\<rparr>,
         \<lparr>me_id = (9, ''k3x''), me_text = ''Great'', me_sentiment = Positive,
          me_confidence = double_0_91, me_timestamp = 9\<rparr>]"
proof -
  let ?st = "initial_state\<lparr>sentimentPipeline := Some stub_classifier\<rparr>"
  have p: "sentimentPipeline ?st = Some stub_classifier"
    by simp
  have e: "moodEntries ?st = []"
    by (simp add: initial_state_def)
  have r: "fst (submit_all
       (replicate 1001 (\<lparr>now = 7, random_suffix = ''k3x'', pipeline_load = Inl ''not used''\<rparr>,
                        post_request ''/api/moods'' (JString ''Great''))) ?st)
     = replicate 1001 \<lparr>status = 201,
         body = MoodBody \<lparr>me_id = (7, ''k3x''), me_text = ''Great'', me_sentiment = Positive,
                  me_confidence = double_0_91, me_timestamp = 7\<rparr>\<rparr>"
    using p by (rule ready_submissions)
  have a: "appended_entries (replicate n \<lparr>status = 201, body = MoodBody en\<rparr>) = replicate n en"
    for n en
    by (induction n) (simp_all add: appended_entries_def created_entry_def)
  have bad: "\<And>s. post_moods \<lparr>now = 8, random_suffix = ''m4y'', pipeline_load = Inl ''not used''\<rparr>
       (post_request ''/api/moods'' JUndefined) s
     = (validation_error 8 ''Text field is required and must be a string'', s)"
    by (simp add: post_moods_def post_request_def validateSentimentInput_def js_falsy_def)
  have three: "fst (submit_all
        [(\<lparr>now = 7, random_suffix = ''k3x'', pipeline_load = Inl ''not used''\<rparr>,
          post_request ''/api/moods'' (JString ''Great'')),
         (\<lparr>now = 8, random_suffix = ''m4y'', pipeline_load = Inl ''not used''\<rparr>,
          post_request ''/api/moods'' JUndefined),
         (\<lparr>now = 9, random_suffix = ''k3x'', pipeline_load = Inl ''not used''\<rparr>,
          post_request ''/api/moods'' (JString ''Great''))] ?st)
     = [\<lparr>status = 201,
         body = MoodBody \<lparr>me_id = (7, ''k3x''), me_text = ''Great'', me_sentiment = Positive,
                  me_confidence = double_0_91, me_timestamp = 7\<rparr>\<rparr>,
        validation_error 8 ''Text field is required and must be a string'',
        \<lparr>status = 201,
         body = MoodBody \<lparr>me_id = (9, ''k3x''), me_text = ''Great'', me_sentiment = Positive,
                  me_confidence = double_0_91, me_timestamp = 9\<rparr>\<rparr>]"
    by (simp add: submit_all_Cons ready_submission bad del: submit_all.simps(2))
  show ?thesis
    using ledger_keeps_most_recent [OF e,
        of "replicate 1001 (\<lparr>now = 7, random_suffix = ''k3x'', pipeline_load = Inl ''not used''\<rparr>,
                            post_request ''/api/moods'' (JString ''Great''))"]
      ledger_keeps_most_recent [OF e,
        of "[(\<lparr>now = 7, random_suffix = ''k3x'', pipeline_load = Inl ''not used''\<rparr>,
          post_request ''/api/moods'' (JString ''Great'')),
         (\<lparr>now = 8, random_suffix = ''m4y'', pipeline_load = Inl ''not used''\<rparr>,
          post_request ''/api/moods'' JUndefined),
         (\<lparr>now = 9, random_suffix = ''k3x'', pipeline_load = Inl ''not used''\<rparr>,
          post_request ''/api/moods'' (JString ''Great''))]"]
    unfolding r a three
    by (simp add: e appended_entries_def created_entry_def validation_error_def)
qed

section \<open>Listing the moods\<close>

text \<open>
  \<^verbatim>\<open>reverse\<close> changes the array it is called on; the handler calls it on the copy that
  \<^verbatim>\<open>slice()\<close> allocated.
\<close>

lemma reverse_in_place_changes_array:
  "fst (arr_reverse [[a, b]] 0) = [[b, a]]"
  by (simp add: arr_reverse_def heap_read_def)

lemma get_moods_page:
  "fst (get_moods req st) =
     \<lparr>status = 200,
      body = MoodsBody
        (js_slice (rev (moodEntries st))
           (or_default (parseInt_query (query_offset req)) 0)
           (or_default (parseInt_query (query_offset req)) 0
              + or_default (parseInt_query (query_limit req)) 50))
        (length (moodEntries st))
        (or_default (parseInt_query (query_limit req)) 50)
        (or_default (parseInt_query (query_offset req)) 0)\<rparr>"
  by (simp add: get_moods_def arr_slice_all_def arr_reverse_def arr_slice_def heap_alloc_def
      heap_read_def Let_def js_slice_def nth_append)

text \<open>
  C10. \<^verbatim>\<open>GET /api/moods\<close> leaves the ledger, and the whole state, as it was, for every
  ledger and every \<^verbatim>\<open>limit\<close> and \<^verbatim>\<open>offset\<close>.
\<close>

theorem list_moods_leaves_ledger:
  "moodEntries (snd (get_moods req st)) = moodEntries st \<and> snd (get_moods req st) = st"
  by (simp add: get_moods_def arr_slice_all_def arr_reverse_def arr_slice_def heap_alloc_def
      heap_read_def Let_def)

text \<open>
  The same through the whole stack, where only the rate limiter's map changes.
\<close>

lemma list_through_app:
  assumes "handles_get (http_method req)" and "path_matches ''/api/moods'' (path req)"
  shows "moodEntries (snd (createApp cfg e req st)) = moodEntries st"
proof -
  obtain d store where m: "rateLimitMiddleware cfg (now e) (ip req) (rateLimitStore st) = (d, store)"
    by (cases "rateLimitMiddleware cfg (now e) (ip req) (rateLimitStore st)")
  have "snd (get_moods req s) = s" for s
    by (simp add: get_moods_def arr_slice_all_def arr_reverse_def arr_slice_def heap_alloc_def
        heap_read_def Let_def)
  then show ?thesis
    using assms
    by (cases d) (auto simp: createApp_def route_def handles_get_def m health_handler_def)
qed

section \<open>The rate limiter\<close>

lemma admit_step_live:
  assumes "store (client_id a) = Some r" "t \<le> resetTime r"
  shows "rateLimitMiddleware cfg t a store =
     (if rateLimitMax cfg \<le> count r then (Denied, sweep_expired t store)
      else (Allowed, (sweep_expired t store)(client_id a \<mapsto> r\<lparr>count := count r + 1\<rparr>)))"
  using assms by (simp add: rateLimitMiddleware_def sweep_expired_def Let_def)

lemma admit_step_fresh:
  assumes "case store (client_id a) of None \<Rightarrow> True | Some r \<Rightarrow> resetTime r < t"
  shows "rateLimitMiddleware cfg t a store =
     (Allowed, (sweep_expired t store)
        (client_id a \<mapsto> \<lparr>count = 1, resetTime = t + rateLimitWindow cfg\<rparr>))"
  using assms by (simp add: rateLimitMiddleware_def sweep_expired_def Let_def split: option.splits)

lemma sweep_keeps_live:
  "store c = Some r \<Longrightarrow> t \<le> resetTime r \<Longrightarrow> sweep_expired t store c = Some r"
  by (simp add: sweep_expired_def)

lemma admit_all_fst_Cons:
  "fst (admit_all cfg a store (t # ts)) =
     fst (rateLimitMiddleware cfg t a store)
       # fst (admit_all cfg a (snd (rateLimitMiddleware cfg t a store)) ts)"
  by (simp add: split_beta)

lemma admit_all_live:
  assumes "store (client_id a) = Some r" "\<forall>t \<in> set ts. t \<le> resetTime r"
  shows "fst (admit_all cfg a store ts) =
     replicate (min (length ts) (nat (rateLimitMax cfg - count r))) Allowed
       @ replicate (length ts - nat (rateLimitMax cfg - count r)) Denied"
  using assms
proof (induction ts arbitrary: store r)
  case Nil
  then show ?case by simp
next
  case (Cons t ts)
  then have t: "t \<le> resetTime r" and rest: "\<forall>u \<in> set ts. u \<le> resetTime r"
    by simp_all
  show ?case
  proof (cases "rateLimitMax cfg \<le> count r")
    case True
    have step: "rateLimitMiddleware cfg t a store = (Denied, sweep_expired t store)"
      using admit_step_live [where store = store and a = a, OF Cons.prems(1) t] True by simp
    have kept: "sweep_expired t store (client_id a) = Some r"
      using sweep_keeps_live [where store = store and c = "client_id a", OF Cons.prems(1) t] .
    show ?thesis
      using Cons.IH [where store = "sweep_expired t store", OF kept rest] True by (simp add: admit_all_fst_Cons step del: admit_all.simps)
  next
    case False
    let ?r' = "r\<lparr>count := count r + 1\<rparr>"
    let ?store' = "(sweep_expired t store)(client_id a \<mapsto> ?r')"
    have step: "rateLimitMiddleware cfg t a store = (Allowed, ?store')"
      using admit_step_live [where store = store and a = a, OF Cons.prems(1) t] False by simp
    have kept: "?store' (client_id a) = Some ?r'"
      by simp
    have rest': "\<forall>u \<in> set ts. u \<le> resetTime ?r'"
      using rest by simp
    have n: "nat (rateLimitMax cfg - count r) = Suc (nat (rateLimitMax cfg - count ?r'))"
      using False by simp
    have ih: "fst (admit_all cfg a ?store' ts) =
        replicate (min (length ts) (nat (rateLimitMax cfg - count ?r'))) Allowed
          @ replicate (length ts - nat (rateLimitMax cfg - count ?r')) Denied"
      by (rule Cons.IH) (use kept rest' in simp_all)
    show ?thesis
      unfolding n admit_all_fst_Cons step fst_conv snd_conv ih by simp
  qed
qed

lemma admit_window:
  assumes k: "rateLimitMax cfg = int k" "1 \<le> k"
    and fresh: "case store (client_id a) of None \<Rightarrow> True | Some r \<Rightarrow> resetTime r < first"
    and len: "length ts = k"
    and within: "\<forall>t \<in> set ts. t \<le> first + rateLimitWindow cfg"
  shows "fst (admit_all cfg a store (first # ts)) = replicate k Allowed @ [Denied]"
proof -
  let ?r = "\<lparr>count = 1, resetTime = first + rateLimitWindow cfg\<rparr>"
  let ?store' = "(sweep_expired first store)(client_id a \<mapsto> ?r)"
  have step: "rateLimitMiddleware cfg first a store = (Allowed, ?store')"
    using admit_step_fresh [where store = store and a = a, OF fresh] .
  have kept: "?store' (client_id a) = Some ?r"
    by simp
  have rest: "\<forall>t \<in> set ts. t \<le> resetTime ?r"
    using within by simp
  have n: "nat (rateLimitMax cfg - count ?r) = k - 1"
    using k by simp
  have "fst (admit_all cfg a ?store' ts) = replicate (k - 1) Allowed @ [Denied]"
    using admit_all_live [of "?store'" a "?r" ts cfg, OF kept rest] k len unfolding n by simp
  then have "fst (admit_all cfg a store (first # ts)) = Allowed # replicate (k - 1) Allowed @ [Denied]"
    by (simp add: admit_all_fst_Cons step del: admit_all.simps)
  moreover have "Allowed # replicate (k - 1) Allowed = replicate k Allowed"
    using k(2) by (cases k) simp_all
  ultimately show ?thesis
    by simp
qed

lemma denied_keeps_record:
  "fst (rateLimitMiddleware cfg t a store) = Denied \<Longrightarrow>
   snd (rateLimitMiddleware cfg t a store) (client_id a) = store (client_id a)"
  by (auto simp: rateLimitMiddleware_def sweep_expired_def Let_def split: option.splits if_splits)

text \<open>
  C5, as the code has it. With a ceiling k of at least 1, a client with no live record
  that calls k + 1 times, every call after the first no later than the reset time of the
  window that the first call opened, is allowed k times and then denied. A denied call
  leaves the client's record, and so its count, as it was. A call made after the reset
  time of the client's record (\<^verbatim>\<open>resetTime < now\<close>) is allowed and replaces the record
  by one with count 1 and a new window.
\<close>

theorem rate_limit_window:
  "(rateLimitMax cfg = int k \<and> 1 \<le> k
      \<and> (case store (client_id a) of None \<Rightarrow> True | Some r \<Rightarrow> resetTime r < first)
      \<and> length ts = k \<and> (\<forall>t \<in> set ts. t \<le> first + rateLimitWindow cfg)
    \<longrightarrow> fst (admit_all cfg a store (first # ts)) = replicate k Allowed @ [Denied])
   \<and> (fst (rateLimitMiddleware cfg t a store) = Denied
    \<longrightarrow> snd (rateLimitMiddleware cfg t a store) (client_id a) = store (client_id a))
   \<and> (\<forall>r. store (client_id a) = Some r \<and> resetTime r < t
    \<longrightarrow> fst (rateLimitMiddleware cfg t a store) = Allowed
      \<and> snd (rateLimitMiddleware cfg t a store) (client_id a)
          = Some \<lparr>count = 1, resetTime = t + rateLimitWindow cfg\<rparr>)"
proof (intro conjI impI allI)
  assume "rateLimitMax cfg = int k \<and> 1 \<le> k
      \<and> (case store (client_id a) of None \<Rightarrow> True | Some r \<Rightarrow> resetTime r < first)
      \<and> length ts = k \<and> (\<forall>t \<in> set ts. t \<le> first + rateLimitWindow cfg)"
  then show "fst (admit_all cfg a store (first # ts)) = replicate k Allowed @ [Denied]"
    using admit_window [where cfg = cfg and k = k and store = store and a = a and first = first and ts = ts] by blast
next
  assume "fst (rateLimitMiddleware cfg t a store) = Denied"
  then show "snd (rateLimitMiddleware cfg t a store) (client_id a) = store (client_id a)"
    by (rule denied_keeps_record)
next
  fix r
  assume "store (client_id a) = Some r \<and> resetTime r < t"
  then have "case store (client_id a) of None \<Rightarrow> True | Some r \<Rightarrow> resetTime r < t"
    by simp
  then have "rateLimitMiddleware cfg t a store =
     (Allowed, (sweep_expired t store)
        (client_id a \<mapsto> \<lparr>count = 1, resetTime = t + rateLimitWindow cfg\<rparr>))"
    by (rule admit_step_fresh)
  then show "fst (rateLimitMiddleware cfg t a store) = Allowed"
    and "snd (rateLimitMiddleware cfg t a store) (client_id a)
          = Some \<lparr>count = 1, resetTime = t + rateLimitWindow cfg\<rparr>"
    by simp_all
qed

theorem rate_limit_window_witness:
  "fst (admit_all default_config (Some ''10.0.0.1'') Map.empty (0 # replicate 100 5))
     = replicate 100 Allowed @ [Denied]
   \<and> fst (rateLimitMiddleware default_config 5 (Some ''10.0.0.1'')
          [''10.0.0.1'' \<mapsto> \<lparr>count = 100, resetTime = 900000\<rparr>]) = Denied
   \<and> snd (rateLimitMiddleware default_config 5 (Some ''10.0.0.1'')
          [''10.0.0.1'' \<mapsto> \<lparr>count = 100, resetTime = 900000\<rparr>]) ''10.0.0.1''
       = Some \<lparr>count = 100, resetTime = 900000\<rparr>
   \<and> fst (rateLimitMiddleware default_config 900001 (Some ''10.0.0.1'')
          [''10.0.0.1'' \<mapsto> \<lparr>count = 100, resetTime = 900000\<rparr>]) = Allowed
   \<and> snd (rateLimitMiddleware default_config 900001 (Some ''10.0.0.1'')
          [''10.0.0.1'' \<mapsto> \<lparr>count = 100, resetTime = 900000\<rparr>]) ''10.0.0.1''
       = Some \<lparr>count = 1, resetTime = 1800001\<rparr>"
proof -
  have d: "fst (rateLimitMiddleware default_config 5 (Some ''10.0.0.1'')
          [''10.0.0.1'' \<mapsto> \<lparr>count = 100, resetTime = 900000\<rparr>]) = Denied"
    by (simp add: rateLimitMiddleware_def sweep_expired_def client_id_def default_config_def)
  show ?thesis
    using rate_limit_window [where cfg = default_config and k = 100 and store = Map.empty
        and a = "Some ''10.0.0.1''" and first = 0 and ts = "replicate 100 5" and t = 5]
      rate_limit_window [where cfg = default_config and k = 100
        and store = "[''10.0.0.1'' \<mapsto> \<lparr>count = 100, resetTime = 900000\<rparr>]"
        and a = "Some ''10.0.0.1''" and first = 0 and ts = "[]" and t = 5]
      rate_limit_window [where cfg = default_config and k = 100
        and store = "[''10.0.0.1'' \<mapsto> \<lparr>count = 100, resetTime = 900000\<rparr>]"
        and a = "Some ''10.0.0.1''" and first = 0 and ts = "[]" and t = 900001] d
    by (simp add: client_id_def default_config_def)
qed

text \<open>
  Where C5 as stated fails: at the instant \<^verbatim>\<open>now = resetTime\<close> the record is still live,
  so an exhausted client is denied although the window has elapsed in the specification's
  sense (\<^verbatim>\<open>now >= windowResetAt\<close>); and with the ceiling 0 the first call is allowed,
  since the branch that creates a record does not look at the ceiling.
\<close>

theorem rate_limit_boundary_counterexample:
  "fst (rateLimitMiddleware \<lparr>nodeEnv = ''test'', rateLimitWindow = 10, rateLimitMax = 1\<rparr> 10
          (Some ''10.0.0.1'') [''10.0.0.1'' \<mapsto> \<lparr>count = 1, resetTime = 10\<rparr>]) = Denied
   \<and> fst (admit_all \<lparr>nodeEnv = ''test'', rateLimitWindow = 10, rateLimitMax = 0\<rparr>
          (Some ''10.0.0.1'') Map.empty [0]) = [Allowed]"
  by (simp add: rateLimitMiddleware_def sweep_expired_def client_id_def)

section \<open>The health check\<close>

lemma health_path: "path_matches ''/api/health'' ''/api/health''"
  by (simp add: path_matches_def ascii_lower_char_def)

lemma health_path_variant: "path_matches ''/api/health'' ''/API/Health/''"
  by code_simp

lemma health_route:
  "http_method req = ''GET'' \<Longrightarrow> path req = ''/api/health'' \<Longrightarrow>
   createApp cfg e req st =
     (case rateLimitMiddleware cfg (now e) (ip req) (rateLimitStore st) of
        (Denied, store) \<Rightarrow> (rate_limit_response cfg (now e), st\<lparr>rateLimitStore := store\<rparr>)
      | (Allowed, store) \<Rightarrow> health_handler cfg e (st\<lparr>rateLimitStore := store\<rparr>))"
  by (simp add: createApp_def route_def handles_get_def health_path
      split: prod.splits admission.splits)

text \<open>
  C2, as the code has it. \<^verbatim>\<open>rateLimitMiddleware\<close> is installed before every route, the
  health check included: a \<^verbatim>\<open>GET /api/health\<close> is answered 200 exactly when the limiter
  admits the client and 429 exactly when it denies it, the record map afterwards is the
  one the limiter leaves (a record created, or its count incremented, on admission), and
  a client whose record is live with its count at the ceiling gets 429.
\<close>

theorem health_is_rate_limited:
  assumes "http_method req = ''GET''" and "path req = ''/api/health''"
  shows "rateLimitStore (snd (createApp cfg e req st))
           = snd (rateLimitMiddleware cfg (now e) (ip req) (rateLimitStore st))
     \<and> (status (fst (createApp cfg e req st)) = 429)
           = (fst (rateLimitMiddleware cfg (now e) (ip req) (rateLimitStore st)) = Denied)
     \<and> (status (fst (createApp cfg e req st)) = 200)
           = (fst (rateLimitMiddleware cfg (now e) (ip req) (rateLimitStore st)) = Allowed)
     \<and> (\<forall>r. rateLimitStore st (client_id (ip req)) = Some r \<and> now e \<le> resetTime r
              \<and> rateLimitMax cfg \<le> count r
          \<longrightarrow> status (fst (createApp cfg e req st)) = 429)"
proof -
  obtain d store where m: "rateLimitMiddleware cfg (now e) (ip req) (rateLimitStore st) = (d, store)"
    by (cases "rateLimitMiddleware cfg (now e) (ip req) (rateLimitStore st)")
  have app: "createApp cfg e req st =
      (case d of Denied \<Rightarrow> (rate_limit_response cfg (now e), st\<lparr>rateLimitStore := store\<rparr>)
       | Allowed \<Rightarrow> health_handler cfg e (st\<lparr>rateLimitStore := store\<rparr>))"
    using health_route [OF assms, of cfg e st] m by (simp split: admission.splits)
  have full: "d = Denied"
    if "rateLimitStore st (client_id (ip req)) = Some r" "now e \<le> resetTime r"
      "rateLimitMax cfg \<le> count r" for r
    using that m admit_step_live [where store = "rateLimitStore st" and a = "ip req" and r = r
        and t = "now e" and cfg = cfg]
    by simp
  show ?thesis
    using full unfolding app m
    by (cases d) (auto simp: rate_limit_response_def health_handler_def)
qed

theorem health_is_rate_limited_witness:
  "status (fst (createApp default_config
       \<lparr>now = 1000, random_suffix = ''k3x'', pipeline_load = Inr stub_classifier\<rparr>
       (get_request ''/api/health'' None None) initial_state)) = 200
   \<and> rateLimitStore (snd (createApp default_config
       \<lparr>now = 1000, random_suffix = ''k3x'', pipeline_load = Inr stub_classifier\<rparr>
       (get_request ''/api/health'' None None) initial_state)) ''10.0.0.1''
     = Some \<lparr>count = 1, resetTime = 901000\<rparr>
   \<and> status (fst (createApp default_config
       \<lparr>now = 2000, random_suffix = ''k3x'', pipeline_load = Inr stub_classifier\<rparr>
       (get_request ''/api/health'' None None)
       (initial_state\<lparr>rateLimitStore := [''10.0.0.1'' \<mapsto> \<lparr>count = 100, resetTime = 901000\<rparr>]\<rparr>)))
     = 429"
  using health_is_rate_limited [of "get_request ''/api/health'' None None" default_config
      "\<lparr>now = 1000, random_suffix = ''k3x'', pipeline_load = Inr stub_classifier\<rparr>" initial_state]
    health_is_rate_limited [of "get_request ''/api/health'' None None" default_config
      "\<lparr>now = 2000, random_suffix = ''k3x'', pipeline_load = Inr stub_classifier\<rparr>"
      "initial_state\<lparr>rateLimitStore := [''10.0.0.1'' \<mapsto> \<lparr>count = 100, resetTime = 901000\<rparr>]\<rparr>"]
  by (simp add: get_request_def initial_state_def default_config_def rateLimitMiddleware_def
      sweep_expired_def client_id_def)

text \<open>
  Where C2 as stated fails: the health check of a client that has used its 100 requests
  of the current window is answered 429, and an admitted health check changes the record
  map.
\<close>

theorem health_rate_limited_counterexample:
  "status (fst (createApp default_config
       \<lparr>now = 1000, random_suffix = ''k3x'', pipeline_load = Inr stub_classifier\<rparr>
       (get_request ''/api/health'' None None)
       (initial_state\<lparr>rateLimitStore := [''10.0.0.1'' \<mapsto> \<lparr>count = 100, resetTime = 900000\<rparr>]\<rparr>)))
     = 429
   \<and> rateLimitStore (snd (createApp default_config
       \<lparr>now = 1000, random_suffix = ''k3x'', pipeline_load = Inr stub_classifier\<rparr>
       (get_request ''/api/health'' None None) initial_state))
     \<noteq> rateLimitStore initial_state"
proof -
  have "rateLimitStore (snd (createApp default_config
       \<lparr>now = 1000, random_suffix = ''k3x'', pipeline_load = Inr stub_classifier\<rparr>
       (get_request ''/api/health'' None None) initial_state)) ''10.0.0.1''
     \<noteq> rateLimitStore initial_state ''10.0.0.1''"
    by (simp add: createApp_def route_def handles_get_def health_path health_handler_def
        get_request_def initial_state_def
        default_config_def rateLimitMiddleware_def sweep_expired_def client_id_def)
  then have "rateLimitStore (snd (createApp default_config
       \<lparr>now = 1000, random_suffix = ''k3x'', pipeline_load = Inr stub_classifier\<rparr>
       (get_request ''/api/health'' None None) initial_state))
     \<noteq> rateLimitStore initial_state"
    by metis
  moreover have "status (fst (createApp default_config
       \<lparr>now = 1000, random_suffix = ''k3x'', pipeline_load = Inr stub_classifier\<rparr>
       (get_request ''/api/health'' None None)
       (initial_state\<lparr>rateLimitStore := [''10.0.0.1'' \<mapsto> \<lparr>count = 100, resetTime = 900000\<rparr>]\<rparr>)))
     = 429"
    by (simp add: createApp_def route_def handles_get_def health_path rate_limit_response_def
        get_request_def initial_state_def
        default_config_def rateLimitMiddleware_def sweep_expired_def client_id_def)
  ultimately show ?thesis
    by simp
qed

section \<open>The query parameters of the list\<close>

lemma parseInt_minus_1: "parseInt ''-1'' = Some (- 1)"
  by (simp add: parseInt_def is_js_whitespace_def is_digit_def digit_value_def digits_value_def)

lemma parseInt_0: "parseInt ''0'' = Some 0"
  by (simp add: parseInt_def is_js_whitespace_def is_digit_def digit_value_def digits_value_def)

lemma parseInt_50: "parseInt ''50'' = Some 50"
  by (simp add: parseInt_def is_js_whitespace_def is_digit_def digit_value_def digits_value_def)

lemma parseInt_abc: "parseInt ''abc'' = None"
  by (simp add: parseInt_def is_js_whitespace_def is_digit_def digit_value_def digits_value_def)

lemma parseInt_undefined: "parseInt ''undefined'' = None"
  by (simp add: parseInt_def is_js_whitespace_def is_digit_def digit_value_def digits_value_def)

lemma exactly_held_small:
  "exactly_held (Some (- 1))" "exactly_held (Some 0)" "exactly_held (Some 50)"
  "exactly_held None"
  by (simp_all add: exactly_held_def)

text \<open>
  C1, as the code has it, for a \<^verbatim>\<open>limit\<close> and an \<^verbatim>\<open>offset\<close> that the code holds
  exactly (no number, or an integer of magnitude at most \<open>2 ^ 52\<close>). \<^verbatim>\<open>GET /api/moods\<close>
  always answers 200. A \<^verbatim>\<open>limit\<close> that \<^verbatim>\<open>parseInt\<close> reads as no number (absent, or with
  no leading digits) gives the same answer as \<^verbatim>\<open>limit=50\<close>, and such an \<^verbatim>\<open>offset\<close> the
  same answer as \<^verbatim>\<open>offset=0\<close>. A negative \<^verbatim>\<open>limit\<close> or \<^verbatim>\<open>offset\<close> is not replaced by
  the default: it is the number echoed in the answer and the number given to
  \<^verbatim>\<open>slice\<close> on the reversed ledger, which returns the entries of the answer.
\<close>

theorem list_moods_query_defaults:
  assumes "exactly_held (parseInt_query (query_limit req))"
    and "exactly_held (parseInt_query (query_offset req))"
  shows "status (fst (get_moods req st)) = 200
   \<and> (parseInt_query (query_limit req) = None
        \<longrightarrow> fst (get_moods req st) = fst (get_moods (req\<lparr>query_limit := Some ''50''\<rparr>) st))
   \<and> (parseInt_query (query_offset req) = None
        \<longrightarrow> fst (get_moods req st) = fst (get_moods (req\<lparr>query_offset := Some ''0''\<rparr>) st))
   \<and> (\<forall>n. parseInt_query (query_limit req) = Some n \<and> n < 0
        \<longrightarrow> (\<exists>off. fst (get_moods req st) =
              \<lparr>status = 200,
               body = MoodsBody (js_slice (rev (moodEntries st)) off (off + n))
                        (length (moodEntries st)) n off\<rparr>))
   \<and> (\<forall>m. parseInt_query (query_offset req) = Some m \<and> m < 0
        \<longrightarrow> (\<exists>lim. fst (get_moods req st) =
              \<lparr>status = 200,
               body = MoodsBody (js_slice (rev (moodEntries st)) m (m + lim))
                        (length (moodEntries st)) lim m\<rparr>))"
  by (simp add: get_moods_page parseInt_query_def parseInt_50 parseInt_0 or_default_def)

theorem list_moods_query_defaults_witness:
  "exactly_held (parseInt_query (Some ''abc'')) \<and> exactly_held (parseInt_query None)
   \<and> exactly_held (parseInt_query (Some ''-1'')) \<and> exactly_held (parseInt_query (Some ''50''))
   \<and> fst (get_moods (get_request ''/api/moods'' (Some ''abc'') None)
          (initial_state\<lparr>moodEntries := [entry_a, entry_b]\<rparr>))
     = \<lparr>status = 200, body = MoodsBody [entry_b, entry_a] 2 50 0\<rparr>
   \<and> fst (get_moods (get_request ''/api/moods'' (Some ''-1'') None)
          (initial_state\<lparr>moodEntries := [entry_a, entry_b]\<rparr>))
     = \<lparr>status = 200, body = MoodsBody [entry_b] 2 (- 1) 0\<rparr>
   \<and> fst (get_moods (get_request ''/api/moods'' (Some ''50'') (Some ''-1''))
          (initial_state\<lparr>moodEntries := [entry_a, entry_b]\<rparr>))
     = \<lparr>status = 200, body = MoodsBody [entry_a] 2 50 (- 1)\<rparr>"
proof -
  let ?st = "initial_state\<lparr>moodEntries := [entry_a, entry_b]\<rparr>"
  have p: "parseInt_query (Some ''abc'') = None" "parseInt_query None = None"
    "parseInt_query (Some ''-1'') = Some (- 1)" "parseInt_query (Some ''50'') = Some 50"
    "parseInt_query (Some ''0'') = Some 0"
    by (simp_all add: parseInt_query_def parseInt_abc parseInt_undefined parseInt_minus_1
        parseInt_50 parseInt_0)
  have h: "exactly_held (parseInt_query (Some ''abc''))" "exactly_held (parseInt_query None)"
    "exactly_held (parseInt_query (Some ''-1''))" "exactly_held (parseInt_query (Some ''50''))"
    by (simp_all add: p exactly_held_small)
  have d: "fst (get_moods (get_request ''/api/moods'' (Some ''50'') None) ?st)
      = \<lparr>status = 200, body = MoodsBody [entry_b, entry_a] 2 50 0\<rparr>"
    by (simp add: get_moods_page get_request_def p or_default_def js_slice_def initial_state_def)
  have n: "fst (get_moods (get_request ''/api/moods'' (Some ''-1'') None) ?st)
      = \<lparr>status = 200, body = MoodsBody [entry_b] 2 (- 1) 0\<rparr>"
    by (simp add: get_moods_page get_request_def p or_default_def js_slice_def initial_state_def)
  have m: "fst (get_moods (get_request ''/api/moods'' (Some ''50'') (Some ''-1'')) ?st)
      = \<lparr>status = 200, body = MoodsBody [entry_a] 2 50 (- 1)\<rparr>"
    by (simp add: get_moods_page get_request_def p or_default_def js_slice_def initial_state_def)
  from list_moods_query_defaults [of "get_request ''/api/moods'' (Some ''abc'') None" ?st]
    list_moods_query_defaults [of "get_request ''/api/moods'' (Some ''-1'') None" ?st]
    list_moods_query_defaults [of "get_request ''/api/moods'' (Some ''50'') (Some ''-1'')" ?st]
  show ?thesis
    using h d n m by (simp add: get_request_def p)
qed

text \<open>
  Where C1 as stated fails: on a ledger of two entries \<^verbatim>\<open>limit=-1\<close> is echoed as -1 and
  \<^verbatim>\<open>slice(0, -1)\<close> returns one entry, while the default returns both with limit 50.
\<close>

theorem negative_limit_counterexample:
  "fst (get_moods (get_request ''/api/moods'' (Some ''-1'') None)
          (initial_state\<lparr>moodEntries := [entry_a, entry_b]\<rparr>))
     = \<lparr>status = 200, body = MoodsBody [entry_b] 2 (- 1) 0\<rparr>
   \<and> fst (get_moods (get_request ''/api/moods'' None None)
          (initial_state\<lparr>moodEntries := [entry_a, entry_b]\<rparr>))
     = \<lparr>status = 200, body = MoodsBody [entry_b, entry_a] 2 50 0\<rparr>"
  by (simp add: get_request_def parseInt_query_def parseInt_undefined parseInt_minus_1
      get_moods_page or_default_def js_slice_def initial_state_def)

text \<open>
  \<^verbatim>\<open>limit=0\<close> is falsy under \<^verbatim>\<open>||\<close> and so reads as 50. The test
  \<^verbatim>\<open>__tests__/moods.test.ts\<close> of the server package expects \<^verbatim>\<open>limit\<close> 0 and no entries.
\<close>

lemma limit_zero_reads_as_default:
  "fst (get_moods (get_request ''/api/moods'' (Some ''0'') (Some ''0''))
          (initial_state\<lparr>moodEntries := [entry_a, entry_b]\<rparr>))
     = \<lparr>status = 200, body = MoodsBody [entry_b, entry_a] 2 50 0\<rparr>"
  by (simp add: get_request_def parseInt_query_def parseInt_0
      get_moods_page or_default_def js_slice_def initial_state_def)

section \<open>Initialization under concurrent calls\<close>

lemma calls_before_load:
  "pipeline_var s = None \<Longrightarrow>
   pipeline_var (run_events (map Call inputs) s) = None
   \<and> init_invocations (run_events (map Call inputs) s) = init_invocations s + length inputs
   \<and> callers (run_events (map Call inputs) s) = callers s @ map AwaitingLoad inputs"
proof (induction inputs arbitrary: s)
  case Nil
  then show ?case by (simp add: run_events_def)
next
  case (Cons x xs)
  let ?s' = "service_step (Call x) s"
  have "pipeline_var ?s' = None"
    using Cons.prems by simp
  from Cons.IH [OF this] show ?case
    using Cons.prems by (simp add: run_events_def)
qed

text \<open>
  One call run alone through its events ends as \<^const>\<open>analyzeSentiment\<close> says.
\<close>

lemma sequential_call_unloaded:
  "callers (run_events [Call input, LoadSettles 0 loaded, Resumes 0, InferenceSettles 0]
       initial_service)
     = [Settled (fst (analyzeSentiment loaded None input))]
   \<and> pipeline_var (run_events [Call input, LoadSettles 0 loaded, Resumes 0, InferenceSettles 0]
       initial_service)
     = snd (analyzeSentiment loaded None input)"
  by (cases loaded)
    (simp_all add: run_events_def initial_service_def analyzeSentiment_def
      initializeSentimentPipeline_def)

lemma sequential_call_loaded:
  "callers (run_events [Call input, InferenceSettles 0] (initial_service\<lparr>pipeline_var := Some p\<rparr>))
     = [Settled (fst (analyzeSentiment loaded (Some p) input))]
   \<and> pipeline_var (run_events [Call input, InferenceSettles 0] (initial_service\<lparr>pipeline_var := Some p\<rparr>))
     = snd (analyzeSentiment loaded (Some p) input)"
  by (simp add: run_events_def initial_service_def analyzeSentiment_def)

text \<open>
  C3, as the code has it. Initialization is not single-flight: every call that starts
  while no pipeline is stored invokes the initialization itself, so N calls that start
  before any initialization has settled invoke it N times; a call that starts once a
  pipeline is stored invokes none. A caller whose own initialization fails fails with the
  service-unavailable error, and the other callers stay where they are. A caller whose
  own initialization succeeds stores its pipeline in the shared variable, and when it
  resumes it runs the pipeline that the variable holds at that moment.
\<close>

theorem initialization_per_caller:
  "(pipeline_var s = None \<longrightarrow>
      init_invocations (run_events (map Call inputs) s) = init_invocations s + length inputs)
   \<and> (\<forall>p. pipeline_var s = Some p \<longrightarrow>
      init_invocations (service_step (Call input) s) = init_invocations s)
   \<and> (\<forall>reason. i < length (callers s) \<and> callers s ! i = AwaitingLoad input \<longrightarrow>
      callers (run_events [LoadSettles i (Inl reason), Resumes i] s)
        = (callers s)[i := Settled (Inl (Error ''Sentiment analysis service unavailable''))])
   \<and> (\<forall>p. i < length (callers s) \<and> callers s ! i = AwaitingLoad input \<longrightarrow>
      pipeline_var (service_step (LoadSettles i (Inr p)) s) = Some p
      \<and> callers (service_step (LoadSettles i (Inr p)) s) = (callers s)[i := InitReturned input])
   \<and> (i < length (callers s) \<and> callers s ! i = InitReturned input \<longrightarrow>
      callers (service_step (Resumes i) s)
        = (callers s)[i := AwaitingInference (run_pipeline (pipeline_var s) input)])"
  using calls_before_load [of s inputs]
  by (auto simp: initializeSentimentPipeline_def run_events_def)

lemma second_result:
  "normalize_result input \<lparr>label = ''NEGATIVE'', score = double_0_88\<rparr>
     = \<lparr>sr_sentiment = Negative, sr_confidence = double_0_88, sr_text = js_trim input\<rparr>"
proof -
  have "js_toLowerCase ''NEGATIVE'' = ''negative''"
    by code_simp
  then show ?thesis
    by (simp add: normalize_result_def mul_0_88 round_88 div_88)
qed

theorem initialization_per_caller_witness:
  "init_invocations (run_events (map Call (replicate 10 ''Great'')) initial_service) = 10
   \<and> init_invocations (service_step (Call ''Great'')
        \<lparr>pipeline_var = Some stub_classifier, init_invocations = 1, callers = []\<rparr>) = 1
   \<and> callers (run_events [LoadSettles 0 (Inl ''no network''), Resumes 0]
        \<lparr>pipeline_var = None, init_invocations = 2,
         callers = [AwaitingLoad ''Great'', AwaitingLoad ''Fine'']\<rparr>)
      = [Settled (Inl (Error ''Sentiment analysis service unavailable'')), AwaitingLoad ''Fine'']
   \<and> callers (service_step (LoadSettles 1 (Inr rejecting_classifier))
        \<lparr>pipeline_var = None, init_invocations = 2,
         callers = [AwaitingLoad ''Great'', AwaitingLoad ''Fine'']\<rparr>)
      = [AwaitingLoad ''Great'', InitReturned ''Fine'']
   \<and> callers (service_step (Resumes 0)
        \<lparr>pipeline_var = Some second_classifier, init_invocations = 2,
         callers = [InitReturned ''Great'', InitReturned ''Fine'']\<rparr>)
      = [AwaitingInference
           (Inr \<lparr>sr_sentiment = Negative, sr_confidence = double_0_88, sr_text = ''Great''\<rparr>),
         InitReturned ''Fine'']"
  using initialization_per_caller [of initial_service "replicate 10 ''Great''" "''Great''" 0]
    initialization_per_caller [of "\<lparr>pipeline_var = Some stub_classifier, init_invocations = 1, callers = []\<rparr>"
      "[]" "''Great''" 0]
    initialization_per_caller [of "\<lparr>pipeline_var = None, init_invocations = 2,
         callers = [AwaitingLoad ''Great'', AwaitingLoad ''Fine'']\<rparr>" "[]" "''Great''" 0]
    initialization_per_caller [of "\<lparr>pipeline_var = None, init_invocations = 2,
         callers = [AwaitingLoad ''Great'', AwaitingLoad ''Fine'']\<rparr>" "[]" "''Fine''" 1]
    initialization_per_caller [of "\<lparr>pipeline_var = Some second_classifier, init_invocations = 2,
         callers = [InitReturned ''Great'', InitReturned ''Fine'']\<rparr>" "[]" "''Great''" 0]
  by (simp add: initial_service_def run_pipeline_def second_classifier_def second_result trim_Great)

text \<open>
  When two loads settle before the first caller resumes, the first caller runs the
  pipeline of the second.
\<close>

lemma resumed_caller_runs_stored_pipeline:
  "callers (run_events
      [Call ''Great'', Call ''Fine'', LoadSettles 0 (Inr stub_classifier),
       LoadSettles 1 (Inr second_classifier), Resumes 0, Resumes 1,
       InferenceSettles 0, InferenceSettles 1] initial_service)
    = [Settled (Inr \<lparr>sr_sentiment = Negative, sr_confidence = double_0_88, sr_text = ''Great''\<rparr>),
       Settled (Inr \<lparr>sr_sentiment = Negative, sr_confidence = double_0_88, sr_text = ''Fine''\<rparr>)]"
proof -
  have "js_trim ''Fine'' = ''Fine''"
    by (simp add: js_trim_def is_js_whitespace_def)
  then show ?thesis
    by (simp add: run_events_def initial_service_def initializeSentimentPipeline_def
        run_pipeline_def second_classifier_def second_result trim_Great)
qed

text \<open>
  Where C3 as stated fails: ten calls made before the service is ready invoke the
  initialization ten times, and of two such calls one can see its initialization fail
  while the other sees its own succeed.
\<close>

theorem single_flight_counterexample:
  "init_invocations (run_events (map Call (replicate 10 ''Great'')) initial_service) = 10
   \<and> callers (run_events
        [Call ''Great'', Call ''Fine'', LoadSettles 0 (Inl ''no network''),
         LoadSettles 1 (Inr stub_classifier), Resumes 0, Resumes 1, InferenceSettles 1]
        initial_service)
      = [Settled (Inl (Error ''Sentiment analysis service unavailable'')),
         Settled (Inr \<lparr>sr_sentiment = Positive, sr_confidence = double_0_91, sr_text = ''Fine''\<rparr>)]"
proof -
  have "init_invocations (run_events (map Call (replicate 10 ''Great'')) initial_service) = 10"
    using calls_before_load [of initial_service "replicate 10 ''Great''"]
    by (simp add: initial_service_def)
  moreover have "js_trim ''Fine'' = ''Fine''"
    by (simp add: js_trim_def is_js_whitespace_def)
  ultimately show ?thesis
    by (simp add: run_events_def initial_service_def initializeSentimentPipeline_def
        run_pipeline_def stub_classifier_def stub_result)
qed

end
